theory Spec2Isabelle
  imports Complex_Main "HOL-Library.Word"
begin

section \<open>Data model\<close>

text \<open>
  The repository's entry point is \<^verbatim>\<open>handleFile\<close> in \<^verbatim>\<open>src/components/Upload.tsx\<close>. It calls
  five functions of \<^verbatim>\<open>lib/dicom\<close> and \<^verbatim>\<open>lib/analysis\<close> (\<^verbatim>\<open>isLikelyDicom\<close>, \<^verbatim>\<open>parseDicom\<close>,
  \<^verbatim>\<open>normalizeDicomToGrayscale8\<close>, \<^verbatim>\<open>computeFeaturesFromImageData\<close>, \<^verbatim>\<open>classifyFeatures\<close>) whose
  sources are absent, and the browser's canvas API.
  \<^verbatim>\<open>handleFile\<close> is embedded from its source; what it calls is either a parameter (a field of
  the record \<open>Env\<close>) or a definition modelled from the specification and marked as such.
\<close>

type_synonym byte = "8 word"

text \<open>Everything \<^verbatim>\<open>handleFile\<close> or one of its callees can throw.  \<open>JsError m\<close> is
  \<^verbatim>\<open>new Error(m)\<close>; \<open>IndexSizeError\<close> and \<open>InvalidStateError\<close> are the DOM exceptions of the
  \<^verbatim>\<open>ImageData\<close> constructor; the remaining kinds are the error kinds the specification
  lists for the decoder, the normalizer and the feature extractor.\<close>

datatype error =
    JsError string
  | IndexSizeError
  | InvalidStateError
  | TruncatedStreamError
  | UnsupportedEncodingError
  | MissingPixelDataError
  | InvalidDimensionsError
  | UnsupportedBitDepthError
  | MalformedRasterError

datatype Label = CT | MRI

datatype PhotometricInterpretation = MONOCHROME1 | MONOCHROME2 | OtherPhotometric

datatype PixelRepresentation = Unsigned | Signed

text \<open>The value \<^verbatim>\<open>parseDicom\<close> returns.  The fields \<^verbatim>\<open>handleFile\<close> reads are \<open>rows\<close>,
  \<open>columns\<close>, \<open>pixelData\<close>, \<open>rescaleSlope\<close>, \<open>rescaleIntercept\<close>, \<open>windowCenter\<close>, \<open>windowWidth\<close>,
  \<open>modality\<close>, \<open>transferSyntax\<close> and \<open>numberOfFrames\<close>; a field that may be \<^verbatim>\<open>undefined\<close> is an
  option (line 39 tests \<open>rows\<close>, \<open>columns\<close> and \<open>pixelData\<close>).  \<open>pixelData\<close> is the sequence of
  the array's numeric elements.  JavaScript numbers that are not counts are reals.

  Modelled from the spec: the declaration of the type is in the absent \<^verbatim>\<open>lib/dicom\<close>.  The
  last five fields, which \<^verbatim>\<open>handleFile\<close> never reads, are those the specification's
  DicomRecord lists beside the ones above: "bitsAllocated, bitsStored: uint16;
  pixelRepresentation: {unsigned, signed}; samplesPerPixel: uint16; photometricInterpretation:
  {MONOCHROME1, MONOCHROME2, other}".\<close>

record DicomInfo =
  rows :: "nat option"
  columns :: "nat option"
  pixelData :: "int list option"
  rescaleSlope :: "real option"
  rescaleIntercept :: "real option"
  windowCenter :: "real option"
  windowWidth :: "real option"
  modality :: "string option"
  transferSyntax :: "string option"
  numberOfFrames :: "nat option"
  bitsAllocated :: nat
  bitsStored :: nat
  pixelRepresentation :: PixelRepresentation
  samplesPerPixel :: nat
  photometricInterpretation :: PhotometricInterpretation

text \<open>The object literal \<^verbatim>\<open>handleFile\<close> passes to \<^verbatim>\<open>normalizeDicomToGrayscale8\<close>
  (lines 46 to 53): six fields.\<close>

record NormalizeOptions =
  optRows :: nat
  optColumns :: nat
  optRescaleSlope :: "real option"
  optRescaleIntercept :: "real option"
  optWindowCenter :: "real option"
  optWindowWidth :: "real option"

text \<open>The browser's \<^verbatim>\<open>ImageData\<close>: a byte buffer with its dimensions.\<close>

record ImageData =
  imgData :: "byte list"
  imgWidth :: nat
  imgHeight :: nat

text \<open>What \<^verbatim>\<open>classifyFeatures\<close> returns; \<^verbatim>\<open>handleFile\<close> reads these three fields.\<close>

record Classification =
  label :: Label
  probabilityCT :: real
  probabilityMRI :: real

text \<open>The type \<^verbatim>\<open>Result\<close> of \<^verbatim>\<open>Upload.tsx\<close> (lines 7 to 13).  \<open>meta\<close> is a
  \<^verbatim>\<open>Record<string, string | number | undefined>\<close>: the keys in the order of the literal,
  each with its value.\<close>

datatype MetaValue = MetaString string | MetaNumber real | MetaUndefined

record Result =
  resLabel :: Label
  resProbabilityCT :: real
  resProbabilityMRI :: real
  resModality :: "string option"
  resMeta :: "(string \<times> MetaValue) list option"

section \<open>The magic-byte probe\<close>

text \<open>Modelled from the spec: \<^verbatim>\<open>isLikelyDicom\<close> is defined in \<^verbatim>\<open>lib/dicom\<close>, which is absent;
  \<^verbatim>\<open>handleFile\<close> only calls it (line 36).  The specification: "cheap magic-byte probe
  (checks 4-byte literal at offset 128)", "true iff bytes 128-131 equal the literal D,I,C,M;
  false for arbitrary buffers lacking that marker, including empty and short buffers".
  Written as the test on a \<^verbatim>\<open>Uint8Array\<close> would be: the length first, then the four bytes
  0x44, 0x49, 0x43, 0x4D.\<close>

definition isLikelyDicom :: "byte list \<Rightarrow> bool" where
  "isLikelyDicom bytes \<longleftrightarrow>
     132 \<le> length bytes \<and> bytes ! 128 = 0x44 \<and> bytes ! 129 = 0x49 \<and>
     bytes ! 130 = 0x43 \<and> bytes ! 131 = 0x4D"

text \<open>The ASCII codes of a string literal, as bytes.\<close>

definition asciiBytes :: "string \<Rightarrow> byte list" where
  "asciiBytes s = map (\<lambda>c. of_nat (of_char c)) s"


section \<open>The browser interfaces \<^verbatim>\<open>handleFile\<close> uses\<close>

text \<open>\<^verbatim>\<open>new ImageData(data, sw, sh)\<close>, as the HTML standard defines the constructor: the
  length of \<open>data\<close> must be a nonzero multiple of four (else \<open>InvalidStateError\<close>), the
  number of pixels a multiple of \<open>sw\<close> and the number of rows equal to \<open>sh\<close> (else
  \<open>IndexSizeError\<close>).  The buffer is taken as it is: four bytes (R, G, B, A) per pixel.\<close>

definition newImageData :: "byte list \<Rightarrow> nat \<Rightarrow> nat \<Rightarrow> error + ImageData" where
  "newImageData d sw sh =
     (if length d = 0 \<or> length d mod 4 \<noteq> 0 then Inl InvalidStateError
      else if sw = 0 \<or> (length d div 4) mod sw \<noteq> 0 then Inl IndexSizeError
      else if (length d div 4) div sw \<noteq> sh then Inl IndexSizeError
      else Inr \<lparr>imgData = d, imgWidth = sw, imgHeight = sh\<rparr>)"

datatype SmoothingQuality = Low | Medium | High

text \<open>The state of the preview canvas (\<^verbatim>\<open>canvasRef.current\<close>) and of its 2d context.\<close>

record Canvas =
  cvWidth :: nat
  cvHeight :: nat
  cvBitmap :: "byte list"
  cvSmoothingEnabled :: bool
  cvSmoothingQuality :: SmoothingQuality

text \<open>Assigning \<^verbatim>\<open>canvas.width\<close> or \<^verbatim>\<open>canvas.height\<close> clears the bitmap to transparent black
  and resets the context to its defaults (smoothing enabled, quality low), also when the
  value does not change.\<close>

definition setCanvasWidth :: "nat \<Rightarrow> Canvas \<Rightarrow> Canvas" where
  "setCanvasWidth w c =
     \<lparr>cvWidth = w, cvHeight = cvHeight c, cvBitmap = replicate (4 * w * cvHeight c) 0,
      cvSmoothingEnabled = True, cvSmoothingQuality = Low\<rparr>"

definition setCanvasHeight :: "nat \<Rightarrow> Canvas \<Rightarrow> Canvas" where
  "setCanvasHeight h c =
     \<lparr>cvWidth = cvWidth c, cvHeight = h, cvBitmap = replicate (4 * cvWidth c * h) 0,
      cvSmoothingEnabled = True, cvSmoothingQuality = Low\<rparr>"

text \<open>\<^verbatim>\<open>ctx.getImageData(0, 0, sw, sh)\<close> on a canvas of that size: the whole bitmap;
  \<open>IndexSizeError\<close> when a side is zero.\<close>

definition getImageData :: "Canvas \<Rightarrow> nat \<Rightarrow> nat \<Rightarrow> error + ImageData" where
  "getImageData c sw sh =
     (if sw = 0 \<or> sh = 0 then Inl IndexSizeError
      else Inr \<lparr>imgData = cvBitmap c, imgWidth = sw, imgHeight = sh\<rparr>)"

section \<open>The environment of \<^verbatim>\<open>handleFile\<close>\<close>

text \<open>What \<^verbatim>\<open>handleFile\<close> calls and \<^verbatim>\<open>Upload.tsx\<close> does not define.
  \<^item> \<open>rnd\<close>: the rounding of one double-precision operation (the exact result of a division
    or a product, rounded to a double);
  \<^item> \<open>context2d\<close>: whether \<^verbatim>\<open>canvas.getContext('2d')\<close> returns a context;
  \<^item> \<open>parseDicom\<close>, \<open>normalizeDicomToGrayscale8\<close>, \<open>computeFeaturesFromImageData\<close>,
    \<open>classifyFeatures\<close>: the imported functions, with the arguments of their call sites;
    each may throw (\<open>Inl\<close>), and \<open>parseDicom\<close> may return nothing (line 38 tests it);
  \<^item> \<open>drawImage\<close>: the bitmap after \<^verbatim>\<open>ctx.drawImage(source, 0, 0, w, h)\<close>, from the canvas
    (its bitmap and smoothing settings), the source and the target size;
  \<^item> \<open>loadImage\<close>: the platform's image decoder behind \<^verbatim>\<open>img.src\<close>, from the bytes and the
    blob's type; \<open>None\<close> when the \<^verbatim>\<open>error\<close> event fires;
  \<^item> \<open>errorText\<close>: the \<^verbatim>\<open>message\<close> of a thrown value that is not a plain \<^verbatim>\<open>Error\<close>.\<close>

record Env =
  rnd :: "real \<Rightarrow> real"
  context2d :: bool
  parseDicom :: "byte list \<Rightarrow> error + DicomInfo option"
  normalizeDicomToGrayscale8 :: "int list \<Rightarrow> NormalizeOptions \<Rightarrow> error + byte list"
  computeFeaturesFromImageData :: "ImageData \<Rightarrow> error + real list"
  classifyFeatures :: "real list \<Rightarrow> error + Classification"
  drawImage :: "Canvas \<Rightarrow> ImageData \<Rightarrow> nat \<Rightarrow> nat \<Rightarrow> byte list"
  loadImage :: "byte list \<Rightarrow> string \<Rightarrow> ImageData option"
  errorText :: "error \<Rightarrow> string"

section \<open>\<^verbatim>\<open>handleFile\<close>\<close>

subsection \<open>Resizing (lines 41 to 44 and 92 to 95)\<close>

text \<open>\<^verbatim>\<open>Math.min(1, maxDim / Math.max(w, h))\<close>.  When both sides are zero the quotient is
  \<^verbatim>\<open>Infinity\<close> and the minimum is 1.\<close>

definition scaleFactor :: "(real \<Rightarrow> real) \<Rightarrow> nat \<Rightarrow> nat \<Rightarrow> nat \<Rightarrow> real" where
  "scaleFactor r maxDim w h =
     (if max w h = 0 then 1 else min 1 (r (real maxDim / real (max w h))))"

text \<open>\<^verbatim>\<open>Math.max(1, Math.floor(v * scale))\<close>.\<close>

definition scaledSize :: "(real \<Rightarrow> real) \<Rightarrow> nat \<Rightarrow> real \<Rightarrow> nat" where
  "scaledSize r v scale = nat (max 1 \<lfloor>r (real v * scale)\<rfloor>)"

subsection \<open>Drawing and reading back (lines 62 to 68 and 96 to 102)\<close>

text \<open>Both branches size the canvas, set the smoothing, draw the source scaled to the
  canvas and read the canvas back.  \<open>w0\<close> and \<open>h0\<close> are the sides the scale is computed from:
  \<^verbatim>\<open>info.columns\<close> and \<^verbatim>\<open>info.rows\<close>, or \<^verbatim>\<open>img.width\<close> and \<^verbatim>\<open>img.height\<close>.\<close>

definition resizeAndRender ::
  "Env \<Rightarrow> nat \<Rightarrow> nat \<Rightarrow> nat \<Rightarrow> ImageData \<Rightarrow> Canvas \<Rightarrow> Canvas \<times> (error + ImageData)" where
  "resizeAndRender env maxDim w0 h0 src c =
     (let scale = scaleFactor (rnd env) maxDim w0 h0;
          width = scaledSize (rnd env) w0 scale;
          height = scaledSize (rnd env) h0 scale;
          c1 = setCanvasHeight height (setCanvasWidth width c);
          c2 = c1\<lparr>cvSmoothingEnabled := True, cvSmoothingQuality := High\<rparr>;
          c3 = c2\<lparr>cvBitmap := drawImage env c2 src width height\<rparr>
      in (c3, getImageData c3 width height))"

text \<open>Lines 69 to 70 and 103 to 104: the features of the image read back, then the
  classifier on the features.\<close>

definition classifyImage :: "Env \<Rightarrow> ImageData \<Rightarrow> error + Classification" where
  "classifyImage env analyzed =
     (case computeFeaturesFromImageData env analyzed of
        Inl e \<Rightarrow> Inl e
      | Inr features \<Rightarrow> classifyFeatures env features)"

subsection \<open>The DICOM branch (lines 37 to 88)\<close>

text \<open>Line 39: \<^verbatim>\<open>!info.rows || !info.columns || !info.pixelData\<close>.  A number is falsy when it
  is undefined or zero; an array, even an empty one, is truthy.\<close>

definition missingPixelData :: "DicomInfo \<Rightarrow> bool" where
  "missingPixelData info \<longleftrightarrow>
     rows info = None \<or> rows info = Some 0 \<or> columns info = None \<or> columns info = Some 0 \<or>
     pixelData info = None"

text \<open>Lines 46 to 53: the call of the normalizer.  Its arguments are the pixel data and
  the six options; read only after the test of line 39.\<close>

definition normalizeOptions :: "DicomInfo \<Rightarrow> NormalizeOptions" where
  "normalizeOptions info =
     \<lparr>optRows = the (rows info), optColumns = the (columns info),
      optRescaleSlope = rescaleSlope info, optRescaleIntercept = rescaleIntercept info,
      optWindowCenter = windowCenter info, optWindowWidth = windowWidth info\<rparr>"

definition dicomRaster :: "Env \<Rightarrow> DicomInfo \<Rightarrow> error + byte list" where
  "dicomRaster env info =
     normalizeDicomToGrayscale8 env (the (pixelData info)) (normalizeOptions info)"

text \<open>Lines 46 to 59: the buffer the normalizer returns is the data of
  \<^verbatim>\<open>new ImageData(rgba, info.columns, info.rows)\<close>.\<close>

definition dicomImageData :: "Env \<Rightarrow> DicomInfo \<Rightarrow> error + ImageData" where
  "dicomImageData env info =
     (case dicomRaster env info of
        Inl e \<Rightarrow> Inl e
      | Inr rgba \<Rightarrow> newImageData rgba (the (columns info)) (the (rows info)))"

text \<open>Lines 41 to 44 and 62 to 68 with \<^verbatim>\<open>maxDim = 512\<close>.\<close>

definition dicomAnalyzed ::
  "Env \<Rightarrow> DicomInfo \<Rightarrow> ImageData \<Rightarrow> Canvas \<Rightarrow> Canvas \<times> (error + ImageData)" where
  "dicomAnalyzed env info imageData c =
     resizeAndRender env 512 (the (columns info)) (the (rows info)) imageData c"

text \<open>Lines 77 to 87: the metadata object.\<close>

definition metaString :: "string option \<Rightarrow> MetaValue" where
  "metaString v = (case v of None \<Rightarrow> MetaUndefined | Some s \<Rightarrow> MetaString s)"

definition metaNumber :: "real option \<Rightarrow> MetaValue" where
  "metaNumber v = (case v of None \<Rightarrow> MetaUndefined | Some x \<Rightarrow> MetaNumber x)"

definition metaCount :: "nat option \<Rightarrow> MetaValue" where
  "metaCount v = (case v of None \<Rightarrow> MetaUndefined | Some n \<Rightarrow> MetaNumber (real n))"

definition dicomMeta :: "DicomInfo \<Rightarrow> (string \<times> MetaValue) list" where
  "dicomMeta info =
     [(''modality'', metaString (modality info)),
      (''transferSyntax'', metaString (transferSyntax info)),
      (''rows'', metaCount (rows info)),
      (''columns'', metaCount (columns info)),
      (''windowCenter'', metaNumber (windowCenter info)),
      (''windowWidth'', metaNumber (windowWidth info)),
      (''rescaleSlope'', metaNumber (rescaleSlope info)),
      (''rescaleIntercept'', metaNumber (rescaleIntercept info)),
      (''frames'', metaCount (numberOfFrames info))]"

text \<open>Lines 72 to 88: the argument of \<^verbatim>\<open>setResult\<close>.\<close>

definition dicomResult :: "DicomInfo \<Rightarrow> Classification \<Rightarrow> Result" where
  "dicomResult info classification =
     \<lparr>resLabel = label classification,
      resProbabilityCT = probabilityCT classification,
      resProbabilityMRI = probabilityMRI classification,
      resModality = modality info,
      resMeta = Some (dicomMeta info)\<rparr>"

text \<open>Lines 38 to 88, from the value \<^verbatim>\<open>parseDicom\<close> returned: the canvas afterwards, and
  the result or the value thrown.\<close>

definition dicomPath :: "Env \<Rightarrow> DicomInfo option \<Rightarrow> Canvas \<Rightarrow> Canvas \<times> (error + Result)" where
  "dicomPath env parsed c =
     (case parsed of
        None \<Rightarrow> (c, Inl (JsError ''Failed to parse DICOM''))
      | Some info \<Rightarrow>
          if missingPixelData info then (c, Inl (JsError ''Missing pixel data''))
          else
            (case dicomImageData env info of
               Inl e \<Rightarrow> (c, Inl e)
             | Inr imageData \<Rightarrow>
                 (case dicomAnalyzed env info imageData c of
                    (c', Inl e) \<Rightarrow> (c', Inl e)
                  | (c', Inr analyzed) \<Rightarrow>
                      (case classifyImage env analyzed of
                         Inl e \<Rightarrow> (c', Inl e)
                       | Inr classification \<Rightarrow> (c', Inr (dicomResult info classification))))))"

subsection \<open>The image branch (lines 90 to 113)\<close>

text \<open>Lines 92 to 102 with \<^verbatim>\<open>maxDim = 768\<close>.\<close>

definition imageAnalyzed :: "Env \<Rightarrow> ImageData \<Rightarrow> Canvas \<Rightarrow> Canvas \<times> (error + ImageData)" where
  "imageAnalyzed env img c = resizeAndRender env 768 (imgWidth img) (imgHeight img) img c"

definition imageResult :: "Classification \<Rightarrow> Result" where
  "imageResult classification =
     \<lparr>resLabel = label classification,
      resProbabilityCT = probabilityCT classification,
      resProbabilityMRI = probabilityMRI classification,
      resModality = None,
      resMeta = None\<rparr>"

subsection \<open>The component state and \<^verbatim>\<open>handleFile\<close> (lines 24 to 120)\<close>

text \<open>The React state of the component (\<^verbatim>\<open>result\<close>, \<^verbatim>\<open>error\<close>, \<^verbatim>\<open>loading\<close>) and the
  canvas.\<close>

record UIState =
  uiResult :: "Result option"
  uiError :: "string option"
  uiLoading :: bool
  uiCanvas :: Canvas

record File =
  fileBytes :: "byte list"
  fileType :: string

text \<open>Line 116: \<^verbatim>\<open>e?.message || 'Unexpected error'\<close>.\<close>

definition caughtMessage :: "Env \<Rightarrow> error \<Rightarrow> string" where
  "caughtMessage env e =
     (let m = (case e of JsError m \<Rightarrow> m | _ \<Rightarrow> errorText env e)
      in if m = [] then ''Unexpected error'' else m)"

text \<open>The image branch after the load or error event of the image.  An exception in
  the \<^verbatim>\<open>onload\<close> handler is outside the \<^verbatim>\<open>try\<close>: it leaves the state as it is.\<close>

definition imagePath :: "Env \<Rightarrow> File \<Rightarrow> UIState \<Rightarrow> UIState" where
  "imagePath env file s =
     (case loadImage env (fileBytes file)
             (if fileType file = [] then ''application/octet-stream'' else fileType file) of
        None \<Rightarrow> s\<lparr>uiError := Some ''Failed to load image''\<rparr>
      | Some img \<Rightarrow>
          (case imageAnalyzed env img (uiCanvas s) of
             (c', Inl e) \<Rightarrow> s\<lparr>uiCanvas := c'\<rparr>
           | (c', Inr analyzed) \<Rightarrow>
               (case classifyImage env analyzed of
                  Inl e \<Rightarrow> s\<lparr>uiCanvas := c'\<rparr>
                | Inr classification \<Rightarrow>
                    s\<lparr>uiCanvas := c', uiResult := Some (imageResult classification)\<rparr>)))"

text \<open>\<^verbatim>\<open>handleFile\<close>: the state once the file is handled.  The three setters of lines 25
  to 27 come first; a thrown value is caught at line 115; \<^verbatim>\<open>setLoading(false)\<close> of line 118
  runs on every path.  The file's bytes are there (\<^verbatim>\<open>file.arrayBuffer()\<close> has resolved) and
  the canvas is mounted (\<^verbatim>\<open>canvasRef.current\<close> is not null); one call is handled to its end,
  its load event included, before the next.\<close>

definition handleFile :: "Env \<Rightarrow> File \<Rightarrow> UIState \<Rightarrow> UIState" where
  "handleFile env file s =
     (let s0 = s\<lparr>uiError := None, uiResult := None, uiLoading := True\<rparr>;
          bytes = fileBytes file
      in if context2d env then
           if isLikelyDicom bytes then
             (case parseDicom env bytes of
                Inl e \<Rightarrow> s0\<lparr>uiError := Some (caughtMessage env e), uiLoading := False\<rparr>
              | Inr parsed \<Rightarrow>
                  (case dicomPath env parsed (uiCanvas s0) of
                     (c', Inl e) \<Rightarrow>
                       s0\<lparr>uiCanvas := c', uiError := Some (caughtMessage env e), uiLoading := False\<rparr>
                   | (c', Inr res) \<Rightarrow>
                       s0\<lparr>uiCanvas := c', uiResult := Some res, uiLoading := False\<rparr>))
           else imagePath env file (s0\<lparr>uiLoading := False\<rparr>)
         else s0\<lparr>uiError := Some (caughtMessage env (JsError ''Canvas context unavailable'')),
                 uiLoading := False\<rparr>)"

section \<open>The intensity normalizer, from the specification\<close>

text \<open>The body of \<^verbatim>\<open>normalizeDicomToGrayscale8\<close> is in \<^verbatim>\<open>lib/analysis\<close>, which is absent; the
  call in \<^verbatim>\<open>handleFile\<close> fixes its arguments: the samples and the six options.  The
  definitions of this section follow the specification's section 4.3: first steps (2) to
  (4), which work on those arguments; then the whole normalizer \<open>normalize\<close>, steps (1)
  to (5), with the bit width, the signedness and the photometric interpretation that steps
  (1) and (5) read and the call does not pass.\<close>

subsection \<open>Steps (2) to (4): rescale, window, level\<close>

text \<open>Modelled from the spec: step (2) of the absent normalizer, "apply the linear rescale
  value = sample * rescaleSlope + rescaleIntercept producing a real-valued intensity", with
  the defaults "1.0/0.0 when absent", on the \<open>rows * columns\<close> samples of the first frame
  ("only the first frame's samples are required downstream").\<close>

definition rescaled :: "NormalizeOptions \<Rightarrow> int list \<Rightarrow> real list" where
  "rescaled opts samples =
     map (\<lambda>s. real_of_int s * (case optRescaleSlope opts of None \<Rightarrow> 1 | Some a \<Rightarrow> a)
               + (case optRescaleIntercept opts of None \<Rightarrow> 0 | Some b \<Rightarrow> b))
         (take (optRows opts * optColumns opts) samples)"

text \<open>Modelled from the spec: step (3) of the absent normalizer without window tags,
  "derive them from the rescaled value distribution's minimum and maximum
  (center = (min+max)/2, width = max-min, with a floor of 1 to avoid division by zero)".
  Without any sample there is nothing to map; the window is then 0, 1.\<close>

definition derivedWindow :: "real list \<Rightarrow> real \<times> real" where
  "derivedWindow vs =
     (case vs of
        [] \<Rightarrow> (0, 1)
      | v # rest \<Rightarrow>
          (let lo = fold min rest v; hi = fold max rest v
           in ((lo + hi) / 2, max 1 (hi - lo))))"

text \<open>Modelled from the spec: step (3) of the absent normalizer, "if
  windowCenter/windowWidth are both present use them directly, otherwise derive them".\<close>

definition displayWindow :: "NormalizeOptions \<Rightarrow> real list \<Rightarrow> real \<times> real" where
  "displayWindow opts vs =
     (case optWindowCenter opts of
        None \<Rightarrow> derivedWindow vs
      | Some c \<Rightarrow>
          (case optWindowWidth opts of
             None \<Rightarrow> derivedWindow vs
           | Some w \<Rightarrow> (c, w)))"

text \<open>Modelled from the spec: step (4) of the absent normalizer, "map each rescaled value
  linearly so that center - width/2 -> 0 and center + width/2 -> 255, clamping outside that
  range".  A window of width 0 given by the file divides by zero; the specification gives
  that case no value, and no theorem below is about it.\<close>

definition windowLevel :: "real \<times> real \<Rightarrow> real \<Rightarrow> real" where
  "windowLevel cw v =
     min 255 (max 0 ((v - (fst cw - snd cw / 2)) / snd cw * 255))"

text \<open>Modelled from the spec: steps (2) to (4) of the absent normalizer, and no more, on
  samples that are integers already: rescale, window, level, one byte per sample.  It is a
  part of the normalizer of section 4.3, not the whole: step (1), which reads the bytes by
  bit width and signedness and refuses other widths, and step (5), the inversion for
  MONOCHROME1, are in \<open>normalize\<close> below, which applies them around this function.  The
  specification does not say how the mapped value becomes a byte: the rounding is the
  parameter \<open>q\<close>.\<close>

definition normalizeSamples :: "(real \<Rightarrow> byte) \<Rightarrow> int list \<Rightarrow> NormalizeOptions \<Rightarrow> byte list" where
  "normalizeSamples q samples opts =
     (let vs = rescaled opts samples
      in map (\<lambda>v. q (windowLevel (displayWindow opts vs) v)) vs)"

text \<open>A rounding for the examples: to the nearest integer, within 0 and 255.\<close>

definition roundByte :: "real \<Rightarrow> byte" where
  "roundByte x = of_nat (nat (round (min 255 (max 0 x))))"

text \<open>Modelled from the spec: the expansion the specification places at the rendering
  boundary, "expanded to 4-channel (R=G=B=value, A=255)"; \<^verbatim>\<open>handleFile\<close> has no code for it.\<close>

definition expandRGBA :: "byte list \<Rightarrow> byte list" where
  "expandRGBA vs = concat (map (\<lambda>v. [v, v, v, 255]) vs)"

text \<open>Modelled from the spec: a normalizer with the arguments of the call in
  \<^verbatim>\<open>handleFile\<close>, the samples and the six options, and the output the specification
  describes, "a flat 8-bit grayscale raster" with one byte per sample.  Its values are
  those of steps (2) to (4); steps (1) and (5) read what the call does not pass.\<close>

definition normalizeFlat :: "int list \<Rightarrow> NormalizeOptions \<Rightarrow> error + byte list" where
  "normalizeFlat samples opts = Inr (normalizeSamples roundByte samples opts)"

text \<open>Modelled from the spec: a normalizer with the same arguments and the same values
  (steps (2) to (4)), four bytes per sample, which is what \<^verbatim>\<open>new ImageData\<close> in
  \<^verbatim>\<open>handleFile\<close> accepts.\<close>

definition normalizeRGBA :: "int list \<Rightarrow> NormalizeOptions \<Rightarrow> error + byte list" where
  "normalizeRGBA samples opts = Inr (expandRGBA (normalizeSamples roundByte samples opts))"

subsection \<open>The normalizer of the specification, steps (1) to (5)\<close>

text \<open>Modelled from the spec: 16-bit samples of the absent normalizer's step (1), two bytes
  per sample.  The specification does not name a byte order; its scenario is an
  "explicit-VR little-endian" file, so the low byte comes first.  A last odd byte is no
  sample.\<close>

fun samples16 :: "byte list \<Rightarrow> 16 word list" where
  "samples16 (lo # hi # rest) = word_of_int (uint lo + 256 * uint hi) # samples16 rest"
| "samples16 _ = []"

text \<open>Modelled from the spec: the value of a stored sample of the absent normalizer, by its
  "signedness" (pixelRepresentation: unsigned, or signed in two's complement).\<close>

definition sampleValue :: "PixelRepresentation \<Rightarrow> 'a::len word \<Rightarrow> int" where
  "sampleValue rep w = (case rep of Unsigned \<Rightarrow> uint w | Signed \<Rightarrow> sint w)"

text \<open>Modelled from the spec: step (1) of the absent normalizer, "reinterpret pixelData as
  an array of rows*columns samples of the declared bit width and signedness (8-bit or
  16-bit; other widths are unsupported and fail with UnsupportedBitDepthError)".\<close>

definition reinterpret :: "nat \<Rightarrow> PixelRepresentation \<Rightarrow> byte list \<Rightarrow> error + int list" where
  "reinterpret bits rep bytes =
     (if bits = 8 then Inr (map (sampleValue rep) bytes)
      else if bits = 16 then Inr (map (sampleValue rep) (samples16 bytes))
      else Inl UnsupportedBitDepthError)"

text \<open>Modelled from the spec: step (5) of the absent normalizer, "if
  photometricInterpretation == MONOCHROME1, invert (255 - value)".\<close>

definition invertFor :: "PhotometricInterpretation \<Rightarrow> byte \<Rightarrow> byte" where
  "invertFor ph v = (if ph = MONOCHROME1 then 255 - v else v)"

text \<open>Modelled from the spec: the GrayscaleRaster of section 3, "width, height: uint32,
  samples: byte sequence of length width*height".\<close>

record GrayscaleRaster =
  grWidth :: nat
  grHeight :: nat
  grSamples :: "byte list"

text \<open>Modelled from the spec: the absent normalizer with the contract of section 4.3,
  "normalize(pixelData, rows, columns, bitsAllocated, pixelRepresentation, rescaleSlope,
  rescaleIntercept, windowCenter?, windowWidth?) -> GrayscaleRaster", and the photometric
  interpretation its step (5) reads: step (1), then steps (2) to (4) on the samples, then
  step (5) on every byte.  \<open>opts\<close> holds rows, columns, the rescale and the window.  A
  buffer with fewer than \<open>rows * columns\<close> samples cannot give a raster of
  \<open>width * height\<close> bytes: the normalizer is to "fail fast and whole", with the
  specification's MalformedRasterError ("raster buffer length does not equal
  width*height").  How a mapped value becomes a byte is the parameter \<open>q\<close>.\<close>

definition normalize ::
  "(real \<Rightarrow> byte) \<Rightarrow> nat \<Rightarrow> PixelRepresentation \<Rightarrow> PhotometricInterpretation \<Rightarrow>
   NormalizeOptions \<Rightarrow> byte list \<Rightarrow> error + GrayscaleRaster" where
  "normalize q bits rep ph opts bytes =
     (case reinterpret bits rep bytes of
        Inl e \<Rightarrow> Inl e
      | Inr samples \<Rightarrow>
          if length samples < optRows opts * optColumns opts then Inl MalformedRasterError
          else Inr \<lparr>grWidth = optColumns opts, grHeight = optRows opts,
                    grSamples = map (invertFor ph) (normalizeSamples q samples opts)\<rparr>)"

section \<open>The decoder's validation, from the specification\<close>

text \<open>\<^verbatim>\<open>parseDicom\<close> is defined in \<^verbatim>\<open>lib/dicom\<close>, which is absent.  The definitions of this
  section follow the specification's sections 3, 4.2 and 7 for what the decoder does once
  its scan has reached the end of the buffer.\<close>

text \<open>Modelled from the spec: the fields the scan of the absent decoder has populated
  (steps 2 to 4 of section 4.2: "for each element, dispatch on its (group, element) tag to
  populate the corresponding DicomRecord field").  The fields are those of the DicomRecord
  of section 3; rows, columns and pixel data are optional here because their tags may be
  absent from the buffer, the rescale values because they have defaults.\<close>

record Scanned =
  scRows :: "nat option"
  scColumns :: "nat option"
  scBitsAllocated :: nat
  scBitsStored :: nat
  scPixelRepresentation :: PixelRepresentation
  scSamplesPerPixel :: nat
  scPhotometricInterpretation :: PhotometricInterpretation
  scRescaleSlope :: "real option"
  scRescaleIntercept :: "real option"
  scWindowCenter :: "real option"
  scWindowWidth :: "real option"
  scModality :: "string option"
  scTransferSyntax :: "string option"
  scNumberOfFrames :: "nat option"
  scPixelData :: "byte list option"

text \<open>Modelled from the spec: the DicomRecord of section 3, the result of the absent
  decoder: "rows, columns: uint16 (image dimensions; both mandatory, otherwise decoding
  fails)", "rescaleSlope, rescaleIntercept: float64 (default 1.0/0.0 when absent)",
  "pixelData: byte sequence".\<close>

record DicomRecord =
  drRows :: nat
  drColumns :: nat
  drBitsAllocated :: nat
  drBitsStored :: nat
  drPixelRepresentation :: PixelRepresentation
  drSamplesPerPixel :: nat
  drPhotometricInterpretation :: PhotometricInterpretation
  drRescaleSlope :: real
  drRescaleIntercept :: real
  drWindowCenter :: "real option"
  drWindowWidth :: "real option"
  drModality :: "string option"
  drTransferSyntax :: "string option"
  drNumberOfFrames :: "nat option"
  drPixelData :: "byte list"

text \<open>Modelled from the spec: the size in the invariant of the DicomRecord,
  "pixelData.length >= rows * columns * samplesPerPixel * ceil(bitsAllocated/8)".\<close>

definition requiredBytes :: "nat \<Rightarrow> nat \<Rightarrow> nat \<Rightarrow> nat \<Rightarrow> nat" where
  "requiredBytes r c spp bits = r * c * spp * ((bits + 7) div 8)"

text \<open>Modelled from the spec: step 5 of the absent decoder, "after the full scan, validate
  invariants from section 3 (dimensions present and positive, pixel buffer large enough);
  on violation, fail with MissingPixelDataError or InvalidDimensionsError", with "a
  DicomRecord with rows=0 or columns=0 fails with InvalidDimensionsError" and the two kinds
  as section 7 lists them, "required tags absent or non-positive".  A dimension of zero is
  tested first and is an InvalidDimensionsError; an absent tag (rows, columns or pixel
  data) and a pixel buffer that is too small are a MissingPixelDataError, the name
  \<^verbatim>\<open>handleFile\<close> too gives to an absent field.\<close>

definition validateRecord :: "Scanned \<Rightarrow> error + DicomRecord" where
  "validateRecord sc =
     (if scRows sc = Some 0 \<or> scColumns sc = Some 0 then Inl InvalidDimensionsError
      else
        (case scRows sc of
           None \<Rightarrow> Inl MissingPixelDataError
         | Some r \<Rightarrow>
             (case scColumns sc of
                None \<Rightarrow> Inl MissingPixelDataError
              | Some c \<Rightarrow>
                  (case scPixelData sc of
                     None \<Rightarrow> Inl MissingPixelDataError
                   | Some px \<Rightarrow>
                       if length px < requiredBytes r c (scSamplesPerPixel sc) (scBitsAllocated sc)
                       then Inl MissingPixelDataError
                       else Inr \<lparr>drRows = r, drColumns = c,
                                 drBitsAllocated = scBitsAllocated sc,
                                 drBitsStored = scBitsStored sc,
                                 drPixelRepresentation = scPixelRepresentation sc,
                                 drSamplesPerPixel = scSamplesPerPixel sc,
                                 drPhotometricInterpretation = scPhotometricInterpretation sc,
                                 drRescaleSlope =
                                   (case scRescaleSlope sc of None \<Rightarrow> 1 | Some a \<Rightarrow> a),
                                 drRescaleIntercept =
                                   (case scRescaleIntercept sc of None \<Rightarrow> 0 | Some b \<Rightarrow> b),
                                 drWindowCenter = scWindowCenter sc,
                                 drWindowWidth = scWindowWidth sc,
                                 drModality = scModality sc,
                                 drTransferSyntax = scTransferSyntax sc,
                                 drNumberOfFrames = scNumberOfFrames sc,
                                 drPixelData = px\<rparr>))))"

text \<open>Modelled from the spec: the absent decoder, "decode(buffer) -> DicomRecord |
  DecodeError": the scan, then the validation.  The scan (steps 1 to 4: the magic literal,
  the Tag Reader, the dispatch on tags, the pixel data) is the parameter \<open>scan\<close>; an error
  of the scan is the error of the decoding ("any error in Tag Reader or Decoder aborts
  decoding as a whole").\<close>

definition decodeDicom ::
  "(byte list \<Rightarrow> error + Scanned) \<Rightarrow> byte list \<Rightarrow> error + DicomRecord" where
  "decodeDicom scan buffer =
     (case scan buffer of
        Inl e \<Rightarrow> Inl e
      | Inr sc \<Rightarrow> validateRecord sc)"

section \<open>The classifier, from the specification\<close>

text \<open>\<^verbatim>\<open>classifyFeatures\<close> is defined in \<^verbatim>\<open>lib/analysis\<close>, which is absent.  The definitions of
  this section follow the specification's section 4.5.  Numbers are reals.\<close>

text \<open>Modelled from the spec: the logistic function of the absent classifier,
  "probabilityCT = sigmoid(score)".\<close>

definition sigmoid :: "real \<Rightarrow> real" where
  "sigmoid x = 1 / (1 + exp (- x))"

text \<open>Modelled from the spec: the score of the absent classifier,
  "score = bias + sum of weight_i * feature_i".  The weights and the bias are "fixed
  constants" whose values the specification leaves open: parameters.\<close>

definition score :: "real \<Rightarrow> real list \<Rightarrow> real list \<Rightarrow> real" where
  "score bias weights features = bias + sum_list (map2 (\<lambda>w f. w * f) weights features)"

text \<open>Modelled from the spec: the absent classifier, "probabilityCT = sigmoid(score);
  probabilityMRI = 1 - probabilityCT; label = CT if probabilityCT >= 0.5 else MRI".\<close>

definition classify :: "real \<Rightarrow> real list \<Rightarrow> real list \<Rightarrow> Classification" where
  "classify bias weights features =
     (let p = sigmoid (score bias weights features)
      in \<lparr>label = (if 1 / 2 \<le> p then CT else MRI), probabilityCT = p, probabilityMRI = 1 - p\<rparr>)"

section \<open>A concrete environment\<close>

text \<open>The specification's scenario: rows 2, columns 2, 8 bits allocated, unsigned,
  samples 0, 85, 170, 255, no rescale and no window tags.\<close>

definition scenarioInfo :: DicomInfo where
  "scenarioInfo =
     \<lparr>rows = Some 2, columns = Some 2, pixelData = Some [0, 85, 170, 255],
      rescaleSlope = None, rescaleIntercept = None, windowCenter = None, windowWidth = None,
      modality = Some ''CT'', transferSyntax = Some ''1.2.840.10008.1.2.1'',
      numberOfFrames = None, bitsAllocated = 8, bitsStored = 8,
      pixelRepresentation = Unsigned, samplesPerPixel = 1,
      photometricInterpretation = MONOCHROME2\<rparr>"

text \<open>Modelled from the spec: a feature extractor for the examples
  (\<^verbatim>\<open>computeFeaturesFromImageData\<close> is in the absent \<^verbatim>\<open>lib/analysis\<close>), with the first feature
  of the specification's section 4.4 as its only feature: "mean intensity (0-255 scale,
  normalized to [0,1])", read from the red channel.\<close>

fun redChannel :: "byte list \<Rightarrow> byte list" where
  "redChannel (r # g # b # a # rest) = r # redChannel rest"
| "redChannel _ = []"

definition meanIntensity :: "ImageData \<Rightarrow> error + real list" where
  "meanIntensity img =
     (let reds = redChannel (imgData img)
      in if reds = [] then Inl MalformedRasterError
         else Inr [real (sum_list (map unat reds)) / (255 * real (length reds))])"

text \<open>Exact arithmetic, a parser that returns \<open>parsed\<close> for every buffer, the normalizer
  \<open>n\<close>, the mean intensity as the feature, a classifier with bias \<open>- 1 / 2\<close> and weight 1,
  and a \<^verbatim>\<open>drawImage\<close> that copies a source of the target's size (and paints black
  otherwise).\<close>

definition scenarioEnv ::
  "(int list \<Rightarrow> NormalizeOptions \<Rightarrow> error + byte list) \<Rightarrow> DicomInfo option \<Rightarrow> Env" where
  "scenarioEnv n parsed =
     \<lparr>rnd = (\<lambda>x. x), context2d = True,
      parseDicom = (\<lambda>bytes. Inr parsed),
      normalizeDicomToGrayscale8 = n,
      computeFeaturesFromImageData = meanIntensity,
      classifyFeatures = (\<lambda>fs. Inr (classify (- 1 / 2) [1] fs)),
      drawImage = (\<lambda>c src w h.
         if imgWidth src = w \<and> imgHeight src = h then imgData src
         else concat (replicate (w * h) [0, 0, 0, 255])),
      loadImage = (\<lambda>bytes mime. None),
      errorText = (\<lambda>e. ''error'')\<rparr>"

definition blankCanvas :: Canvas where
  "blankCanvas =
     \<lparr>cvWidth = 300, cvHeight = 150, cvBitmap = [],
      cvSmoothingEnabled = True, cvSmoothingQuality = Low\<rparr>"

definition idleState :: UIState where
  "idleState = \<lparr>uiResult = None, uiError = None, uiLoading = False, uiCanvas = blankCanvas\<rparr>"

text \<open>A file of 132 bytes: the preamble and the marker.\<close>

definition dicomFile :: File where
  "dicomFile = \<lparr>fileBytes = replicate 128 0 @ asciiBytes ''DICM'', fileType = []\<rparr>"

text \<open>The scenario with the tags the file may carry: slope 1, intercept 0, a window of
  center 127.5 and width 255, one frame.\<close>

definition windowedInfo :: DicomInfo where
  "windowedInfo =
     scenarioInfo\<lparr>rescaleSlope := Some 1, rescaleIntercept := Some 0,
                  windowCenter := Some (255 / 2), windowWidth := Some 255,
                  numberOfFrames := Some 1\<rparr>"

text \<open>Modelled from the spec: a scan for the examples (the scan of the absent decoder is a
  parameter of \<open>decodeDicom\<close>), which finds in every buffer the scenario's tags, "rows=2,
  columns=2, bitsAllocated=8 ... unsigned", with the rows \<open>r\<close>, the columns \<open>c\<close> and the
  pixel data \<open>px\<close>.\<close>

definition scenarioScan ::
  "nat option \<Rightarrow> nat option \<Rightarrow> byte list option \<Rightarrow> byte list \<Rightarrow> error + Scanned" where
  "scenarioScan r c px buffer =
     Inr \<lparr>scRows = r, scColumns = c, scBitsAllocated = 8, scBitsStored = 8,
          scPixelRepresentation = Unsigned, scSamplesPerPixel = 1,
          scPhotometricInterpretation = MONOCHROME2,
          scRescaleSlope = None, scRescaleIntercept = None,
          scWindowCenter = None, scWindowWidth = None,
          scModality = None, scTransferSyntax = None, scNumberOfFrames = None,
          scPixelData = px\<rparr>"

section \<open>Lemmas about the interfaces and the stages\<close>

lemma take_drop_four:
  "take 4 (drop n xs) = [a, b, c, d] \<longleftrightarrow>
     n + 4 \<le> length xs \<and> xs ! n = a \<and> xs ! (n + 1) = b \<and> xs ! (n + 2) = c \<and> xs ! (n + 3) = d"
proof
  assume h: "take 4 (drop n xs) = [a, b, c, d]"
  then have "length (take 4 (drop n xs)) = 4" by simp
  then have len: "n + 4 \<le> length xs" by simp
  have "\<And>i. i < 4 \<Longrightarrow> take 4 (drop n xs) ! i = xs ! (n + i)"
    using len by simp
  with h have "\<And>i. i < 4 \<Longrightarrow> [a, b, c, d] ! i = xs ! (n + i)" by simp
  from this[of 0] this[of 1] this[of 2] this[of 3] len
  show "n + 4 \<le> length xs \<and> xs ! n = a \<and> xs ! (n + 1) = b \<and> xs ! (n + 2) = c \<and> xs ! (n + 3) = d"
    by simp
next
  assume h: "n + 4 \<le> length xs \<and> xs ! n = a \<and> xs ! (n + 1) = b \<and> xs ! (n + 2) = c \<and> xs ! (n + 3) = d"
  then have len: "length (take 4 (drop n xs)) = 4" by auto
  show "take 4 (drop n xs) = [a, b, c, d]"
  proof (rule nth_equalityI)
    show "length (take 4 (drop n xs)) = length [a, b, c, d]" using len by simp
  next
    fix i assume "i < length (take 4 (drop n xs))"
    then have "i < 4" using len by simp
    then have "i = 0 \<or> i = 1 \<or> i = 2 \<or> i = 3" by arith
    then show "take 4 (drop n xs) ! i = [a, b, c, d] ! i"
      using h by (auto simp: numeral_eq_Suc)
  qed
qed

lemma asciiBytes_DICM: "asciiBytes ''DICM'' = [0x44, 0x49, 0x43, 0x4D]"
  by (simp add: asciiBytes_def)

lemma dicomFile_is_dicom: "isLikelyDicom (fileBytes dicomFile)"
  by (simp add: dicomFile_def isLikelyDicom_def asciiBytes_def nth_append)

text \<open>The \<^verbatim>\<open>ImageData\<close> constructor accepts a buffer for a \<open>sw\<close> by \<open>sh\<close> image exactly
  when the buffer has \<open>4 * sw * sh\<close> bytes.\<close>

lemma newImageData_iff:
  assumes "0 < sw" "0 < sh"
  shows "newImageData d sw sh =
     (if length d = 4 * sw * sh then Inr \<lparr>imgData = d, imgWidth = sw, imgHeight = sh\<rparr>
      else if length d = 0 \<or> length d mod 4 \<noteq> 0 then Inl InvalidStateError else Inl IndexSizeError)"
proof (cases "length d = 4 * sw * sh")
  case True
  then have "length d \<noteq> 0" "length d mod 4 = 0" "length d div 4 = sw * sh"
    using assms by simp_all
  then show ?thesis using True assms by (simp add: newImageData_def)
next
  case False
  have "\<not> (length d mod 4 = 0 \<and> (length d div 4) mod sw = 0 \<and> (length d div 4) div sw = sh)"
  proof
    assume h: "length d mod 4 = 0 \<and> (length d div 4) mod sw = 0 \<and> (length d div 4) div sw = sh"
    then have "length d = 4 * (length d div 4)" by auto
    moreover from h have "length d div 4 = sw * ((length d div 4) div sw)"
      by (metis mult_div_mod_eq add.right_neutral)
    ultimately have "length d = 4 * sw * sh" using h by simp
    with False show False by simp
  qed
  then show ?thesis using False assms by (auto simp: newImageData_def)
qed

lemma dicomPath_image_error:
  assumes "\<not> missingPixelData info" "dicomImageData env info = Inl e"
  shows "dicomPath env (Some info) c = (c, Inl e)"
  using assms by (simp add: dicomPath_def)

lemma dicomPath_success:
  assumes "snd (dicomPath env (Some info) c) = Inr res"
  shows "\<not> missingPixelData info \<and>
         (\<exists>imageData analyzed classification.
            dicomImageData env info = Inr imageData \<and>
            snd (dicomAnalyzed env info imageData c) = Inr analyzed \<and>
            classifyImage env analyzed = Inr classification \<and>
            res = dicomResult info classification)"
  using assms
  by (auto simp: dicomPath_def split: if_splits sum.splits prod.splits)

text \<open>The normalizer sees the pixel data and the options, nothing else of the record.\<close>

lemma dicomRaster_same:
  "pixelData a = pixelData b \<Longrightarrow> normalizeOptions a = normalizeOptions b \<Longrightarrow>
   dicomRaster env a = dicomRaster env b"
  by (simp add: dicomRaster_def)

lemma byte_not_own_complement: "(v::byte) \<noteq> 255 - v"
proof
  assume h: "v = 255 - v"
  have b: "unat v < 256" using unsigned_less[of v, where 'a=nat] by simp
  then have "v \<le> 255" by (simp add: word_le_nat_alt)
  then have "unat (255 - v) = 255 - unat v"
    by (simp add: unat_sub)
  moreover have "unat v = unat (255 - v)" by (rule arg_cong[OF h])
  ultimately have "unat v = 255 - unat v" by (rule trans[rotated])
  with b show False by arith
qed

text \<open>Two decoded records that agree on what the branch reads give the same run.\<close>

lemma dicomPath_same:
  assumes "missingPixelData a = missingPixelData b"
    and "dicomImageData env a = dicomImageData env b"
    and "dicomAnalyzed env a = dicomAnalyzed env b"
    and "dicomResult a = dicomResult b"
  shows "dicomPath env (Some a) c = dicomPath env (Some b) c"
  unfolding dicomPath_def option.case assms by (rule refl)

subsection \<open>Resizing\<close>








lemma resizeAndRender_any_canvas:
  "resizeAndRender env maxDim w0 h0 src c = resizeAndRender env maxDim w0 h0 src c'"
  by (simp add: resizeAndRender_def Let_def setCanvasWidth_def setCanvasHeight_def getImageData_def)

lemma dicomPath_any_canvas:
  "snd (dicomPath env parsed c) = snd (dicomPath env parsed c')"
proof (cases parsed)
  case None
  then show ?thesis by (simp add: dicomPath_def)
next
  case (Some info)
  have a: "\<And>imageData. dicomAnalyzed env info imageData c = dicomAnalyzed env info imageData c'"
    unfolding dicomAnalyzed_def by (rule resizeAndRender_any_canvas)
  show ?thesis
    unfolding Some dicomPath_def
    by (simp add: a split: sum.splits prod.splits)
qed

lemma handleFile_outcome:
  "uiResult (handleFile env fl s) = uiResult (handleFile env fl s') \<and>
   uiError (handleFile env fl s) = uiError (handleFile env fl s') \<and>
   uiLoading (handleFile env fl s) = uiLoading (handleFile env fl s')"
proof -
  have i: "\<And>img. imageAnalyzed env img (uiCanvas s) = imageAnalyzed env img (uiCanvas s')"
    unfolding imageAnalyzed_def by (rule resizeAndRender_any_canvas)
  have d: "\<And>parsed. snd (dicomPath env parsed (uiCanvas s)) = snd (dicomPath env parsed (uiCanvas s'))"
    by (rule dicomPath_any_canvas)
  show ?thesis
  proof (cases "context2d env")
    case False
    then show ?thesis by (simp add: handleFile_def Let_def)
  next
    case True
    show ?thesis
    proof (cases "isLikelyDicom (fileBytes fl)")
      case False
      then show ?thesis using True i
        by (simp add: handleFile_def Let_def imagePath_def split: option.splits sum.splits prod.splits)
    next
      case dcm: True
      show ?thesis
      proof (cases "parseDicom env (fileBytes fl)")
        case (Inl e)
        then show ?thesis using True dcm by (simp add: handleFile_def Let_def)
      next
        case (Inr parsed)
        obtain c1 r1 where 1: "dicomPath env parsed (uiCanvas s) = (c1, r1)"
          by (cases "dicomPath env parsed (uiCanvas s)")
        obtain c2 r2 where 2: "dicomPath env parsed (uiCanvas s') = (c2, r2)"
          by (cases "dicomPath env parsed (uiCanvas s')")
        have "r1 = r2" using d[of parsed] 1 2 by simp
        then show ?thesis using True dcm Inr 1 2
          by (simp add: handleFile_def Let_def split: sum.splits)
      qed
    qed
  qed
qed

subsection \<open>The result \<^verbatim>\<open>handleFile\<close> sets in the DICOM branch\<close>

lemma handleFile_dicom_result:
  assumes dcm: "isLikelyDicom (fileBytes file)"
    and parse: "parseDicom env (fileBytes file) = Inr (Some info)"
  shows "uiResult (handleFile env file s) =
           (if context2d env then
              (case snd (dicomPath env (Some info) (uiCanvas s)) of
                 Inl e \<Rightarrow> None | Inr res \<Rightarrow> Some res)
            else None)"
  using assms
  by (simp add: handleFile_def Let_def split: prod.splits sum.splits)

lemma dicomPath_result_iff:
  "snd (dicomPath env (Some info) c) = Inr res \<longleftrightarrow>
     \<not> missingPixelData info \<and>
     (\<exists>imageData analyzed features classification.
        dicomImageData env info = Inr imageData \<and>
        snd (dicomAnalyzed env info imageData c) = Inr analyzed \<and>
        computeFeaturesFromImageData env analyzed = Inr features \<and>
        classifyFeatures env features = Inr classification \<and>
        res = dicomResult info classification)"
  by (auto simp: dicomPath_def classifyImage_def split: if_splits sum.splits prod.splits)

subsection \<open>The normalizer of the specification\<close>

lemma roundByte_mono: "x \<le> y \<Longrightarrow> roundByte x \<le> roundByte y"
proof -
  assume xy: "x \<le> y"
  define a where "a = nat (round (min 255 (max 0 x)))"
  define b where "b = nat (round (min 255 (max 0 y)))"
  have ab: "a \<le> b" unfolding a_def b_def
    using xy by (intro nat_mono round_mono) (simp add: min_def max_def)
  have "round (min 255 (max 0 y)) \<le> round (255::real)"
    by (intro round_mono) simp
  then have b: "b < 256" unfolding b_def by simp
  with ab have a: "a < 256" by simp
  have "take_bit 8 a = a" "take_bit 8 b = b"
    using a b by (simp_all add: take_bit_nat_eq_self)
  then show ?thesis
    using ab by (simp add: roundByte_def of_nat_word_less_eq_iff flip: a_def b_def)
qed

lemma derivedWindow_width: "1 \<le> snd (derivedWindow vs)"
  by (simp add: derivedWindow_def Let_def split: list.splits)

lemma windowLevel_mono:
  assumes "0 < snd cw" "v \<le> v'"
  shows "windowLevel cw v \<le> windowLevel cw v'"
proof -
  have "(v - (fst cw - snd cw / 2)) / snd cw \<le> (v' - (fst cw - snd cw / 2)) / snd cw"
    using assms by (simp add: divide_right_mono)
  then have "(v - (fst cw - snd cw / 2)) / snd cw * 255 \<le> (v' - (fst cw - snd cw / 2)) / snd cw * 255"
    by (rule mult_right_mono) simp
  then show ?thesis unfolding windowLevel_def by (auto simp only: min_def max_def split: if_splits)
qed

lemma windowLevel_range: "0 \<le> windowLevel cw v \<and> windowLevel cw v \<le> 255"
  by (simp add: windowLevel_def)

lemma rescaled_nth:
  assumes "i < length (rescaled opts samples)"
  shows "rescaled opts samples ! i =
     real_of_int (samples ! i) * (case optRescaleSlope opts of None \<Rightarrow> 1 | Some a \<Rightarrow> a)
       + (case optRescaleIntercept opts of None \<Rightarrow> 0 | Some b \<Rightarrow> b)"
  using assms by (simp add: rescaled_def)

lemma normalizeSamples_length:
  "length (normalizeSamples q samples opts) = length (rescaled opts samples)"
  by (simp add: normalizeSamples_def Let_def)

lemma normalizeSamples_nth:
  assumes "i < length (normalizeSamples q samples opts)"
  shows "normalizeSamples q samples opts ! i =
     q (windowLevel (displayWindow opts (rescaled opts samples)) (rescaled opts samples ! i))"
  using assms by (simp add: normalizeSamples_def Let_def)

lemma normalize_shape:
  assumes "normalize q bits rep ph opts bytes = Inr raster"
  shows "\<exists>samples. reinterpret bits rep bytes = Inr samples \<and>
           optRows opts * optColumns opts \<le> length samples \<and>
           grSamples raster = map (invertFor ph) (normalizeSamples q samples opts) \<and>
           length (grSamples raster) = optRows opts * optColumns opts \<and>
           grWidth raster = optColumns opts \<and> grHeight raster = optRows opts"
  using assms
  by (auto simp: normalize_def normalizeSamples_length rescaled_def split: sum.splits if_splits)

subsection \<open>The scenario, evaluated\<close>

lemma scenario_samples:
  "normalizeSamples roundByte [0, 85, 170, 255]
     (normalizeOptions (scenarioInfo\<lparr>bitsAllocated := b, pixelRepresentation := p,
                                     photometricInterpretation := ph\<rparr>)) = [0, 85, 170, 255]"
  by (simp add: normalizeSamples_def rescaled_def displayWindow_def derivedWindow_def
      windowLevel_def roundByte_def Let_def normalizeOptions_def scenarioInfo_def)

lemma scenario_flat:
  "dicomRaster (scenarioEnv normalizeFlat parsed)
     (scenarioInfo\<lparr>bitsAllocated := b, pixelRepresentation := p,
                    photometricInterpretation := ph\<rparr>) = Inr [0, 85, 170, 255]"
  using scenario_samples[where b=b and p=p and ph=ph]
  by (simp add: dicomRaster_def scenarioEnv_def normalizeFlat_def) (simp add: scenarioInfo_def)

lemma scenario_rgba:
  "dicomRaster (scenarioEnv normalizeRGBA parsed)
     (scenarioInfo\<lparr>bitsAllocated := b, pixelRepresentation := p,
                    photometricInterpretation := ph\<rparr>) =
     Inr [0, 0, 0, 255, 85, 85, 85, 255, 170, 170, 170, 255, 255, 255, 255, 255]"
  using scenario_samples[where b=b and p=p and ph=ph]
  by (simp add: dicomRaster_def scenarioEnv_def normalizeRGBA_def expandRGBA_def)
     (simp add: scenarioInfo_def)

lemma scenario_rgba0:
  "dicomRaster (scenarioEnv normalizeRGBA parsed) scenarioInfo =
     Inr [0, 0, 0, 255, 85, 85, 85, 255, 170, 170, 170, 255, 255, 255, 255, 255]"
  using scenario_rgba[where parsed=parsed and b=8 and p=Unsigned and ph=MONOCHROME2]
  by (simp add: scenarioInfo_def)

lemma scenario_image:
  "dicomImageData (scenarioEnv normalizeRGBA parsed) scenarioInfo =
     Inr \<lparr>imgData = [0, 0, 0, 255, 85, 85, 85, 255, 170, 170, 170, 255, 255, 255, 255, 255],
          imgWidth = 2, imgHeight = 2\<rparr>"
  by (simp add: dicomImageData_def scenario_rgba0 newImageData_def) (simp add: scenarioInfo_def)

lemma scenario_analyzed:
  "snd (dicomAnalyzed (scenarioEnv n parsed) scenarioInfo
     \<lparr>imgData = [0, 0, 0, 255, 85, 85, 85, 255, 170, 170, 170, 255, 255, 255, 255, 255],
          imgWidth = 2, imgHeight = 2\<rparr> c) =
   Inr \<lparr>imgData = [0, 0, 0, 255, 85, 85, 85, 255, 170, 170, 170, 255, 255, 255, 255, 255],
          imgWidth = 2, imgHeight = 2\<rparr>"
  by (simp add: dicomAnalyzed_def resizeAndRender_def scaleFactor_def scaledSize_def Let_def
        getImageData_def scenarioEnv_def scenarioInfo_def)

lemma scenario_classified:
  "classifyImage (scenarioEnv n parsed)
     \<lparr>imgData = [0, 0, 0, 255, 85, 85, 85, 255, 170, 170, 170, 255, 255, 255, 255, 255],
          imgWidth = 2, imgHeight = 2\<rparr> =
   Inr \<lparr>label = CT, probabilityCT = 1 / 2, probabilityMRI = 1 / 2\<rparr>"
  by (simp add: classifyImage_def scenarioEnv_def meanIntensity_def classify_def score_def
        sigmoid_def Let_def)

lemma scenario_path:
  "snd (dicomPath (scenarioEnv normalizeRGBA parsed) (Some scenarioInfo) c) =
     Inr (dicomResult scenarioInfo \<lparr>label = CT, probabilityCT = 1 / 2, probabilityMRI = 1 / 2\<rparr>)"
proof -
  have m: "\<not> missingPixelData scenarioInfo"
    by (simp add: missingPixelData_def scenarioInfo_def)
  obtain c' where a: "dicomAnalyzed (scenarioEnv normalizeRGBA parsed) scenarioInfo
     \<lparr>imgData = [0, 0, 0, 255, 85, 85, 85, 255, 170, 170, 170, 255, 255, 255, 255, 255],
          imgWidth = 2, imgHeight = 2\<rparr> c =
       (c', Inr \<lparr>imgData = [0, 0, 0, 255, 85, 85, 85, 255, 170, 170, 170, 255, 255, 255, 255, 255],
          imgWidth = 2, imgHeight = 2\<rparr>)"
    using scenario_analyzed[of normalizeRGBA parsed c] by (metis prod.collapse)
  show ?thesis
    by (simp add: dicomPath_def m scenario_image a scenario_classified)
qed

text \<open>The scenario with window and rescale tags.\<close>

lemma windowed_image:
  "dicomImageData (scenarioEnv normalizeRGBA parsed) windowedInfo =
     Inr \<lparr>imgData = [0, 0, 0, 255, 85, 85, 85, 255, 170, 170, 170, 255, 255, 255, 255, 255],
          imgWidth = 2, imgHeight = 2\<rparr>"
  by (simp add: dicomImageData_def dicomRaster_def scenarioEnv_def normalizeRGBA_def
        expandRGBA_def normalizeOptions_def windowedInfo_def scenarioInfo_def newImageData_def
        normalizeSamples_def rescaled_def displayWindow_def windowLevel_def roundByte_def
        Let_def)

lemma windowed_analyzed:
  "snd (dicomAnalyzed (scenarioEnv n parsed) windowedInfo
     \<lparr>imgData = [0, 0, 0, 255, 85, 85, 85, 255, 170, 170, 170, 255, 255, 255, 255, 255],
          imgWidth = 2, imgHeight = 2\<rparr> c) =
   Inr \<lparr>imgData = [0, 0, 0, 255, 85, 85, 85, 255, 170, 170, 170, 255, 255, 255, 255, 255],
          imgWidth = 2, imgHeight = 2\<rparr>"
  by (simp add: dicomAnalyzed_def resizeAndRender_def scaleFactor_def scaledSize_def Let_def
        getImageData_def scenarioEnv_def scenarioInfo_def windowedInfo_def)

lemma scenario_features:
  "computeFeaturesFromImageData (scenarioEnv n parsed)
     \<lparr>imgData = [0, 0, 0, 255, 85, 85, 85, 255, 170, 170, 170, 255, 255, 255, 255, 255],
          imgWidth = 2, imgHeight = 2\<rparr> = Inr [1 / 2]"
  by (simp add: scenarioEnv_def meanIntensity_def)

lemma scenario_classification:
  "classifyFeatures (scenarioEnv n parsed) [1 / 2] =
     Inr \<lparr>label = CT, probabilityCT = 1 / 2, probabilityMRI = 1 / 2\<rparr>"
  by (simp add: scenarioEnv_def classify_def score_def sigmoid_def Let_def)

section \<open>The claims\<close>

subsection \<open>C1: what the normalizer hands to the rendering boundary\<close>

text \<open>Claim C1, as amended.  The claim says that the normalizer returns a flat raster of
  \<open>columns * rows\<close> bytes and that the expansion to four channels happens at the rendering
  boundary.  \<^verbatim>\<open>handleFile\<close> has no such expansion: the buffer the normalizer returns (the
  source names it \<^verbatim>\<open>rgba\<close>) is itself the data of
  \<^verbatim>\<open>new ImageData(rgba, info.columns, info.rows)\<close>.  So, for every decoded record with
  positive dimensions and every normalizer: the image data is built exactly when the buffer
  has \<open>4 * columns * rows\<close> bytes, and it is then that buffer, unchanged; a buffer of
  \<open>columns * rows\<close> bytes is refused by the constructor and the DICOM branch ends with that
  exception.\<close>

theorem normalizer_output_is_image_data:
  assumes "rows info = Some r" "columns info = Some cl" "0 < r" "0 < cl"
    and "dicomRaster env info = Inr raster"
  shows "dicomImageData env info =
           (if length raster = 4 * cl * r
            then Inr \<lparr>imgData = raster, imgWidth = cl, imgHeight = r\<rparr>
            else if length raster = 0 \<or> length raster mod 4 \<noteq> 0 then Inl InvalidStateError
            else Inl IndexSizeError)
       \<and> (length raster = cl * r \<longrightarrow>
            (\<exists>e. dicomImageData env info = Inl e \<and>
                 (pixelData info \<noteq> None \<longrightarrow> dicomPath env (Some info) c = (c, Inl e))))"
proof -
  have img: "dicomImageData env info = newImageData raster cl r"
    using assms by (simp add: dicomImageData_def)
  have first: "dicomImageData env info =
           (if length raster = 4 * cl * r
            then Inr \<lparr>imgData = raster, imgWidth = cl, imgHeight = r\<rparr>
            else if length raster = 0 \<or> length raster mod 4 \<noteq> 0 then Inl InvalidStateError
            else Inl IndexSizeError)"
    unfolding img using assms(3,4) by (simp only: newImageData_iff)
  have second: "\<exists>e. dicomImageData env info = Inl e \<and>
                 (pixelData info \<noteq> None \<longrightarrow> dicomPath env (Some info) c = (c, Inl e))"
    if flat: "length raster = cl * r"
  proof -
    have "0 < cl * r" using assms(3,4) by simp
    then have ne: "length raster \<noteq> 4 * cl * r" using flat by simp
    then have "dicomImageData env info = Inl InvalidStateError \<or>
               dicomImageData env info = Inl IndexSizeError"
      using first by (simp split: if_splits)
    then obtain e where e: "dicomImageData env info = Inl e" by blast
    have "pixelData info \<noteq> None \<longrightarrow> \<not> missingPixelData info"
      using assms by (simp add: missingPixelData_def)
    with e show ?thesis using dicomPath_image_error by blast
  qed
  from first second show ?thesis by blast
qed

text \<open>The theorem on the scenario, with the normalizer that returns four bytes per
  sample: the sixteen bytes are the image data.\<close>

theorem normalizer_output_is_image_data_witness:
  "dicomImageData (scenarioEnv normalizeRGBA None) scenarioInfo =
     Inr \<lparr>imgData = [0, 0, 0, 255, 85, 85, 85, 255, 170, 170, 170, 255, 255, 255, 255, 255],
          imgWidth = 2, imgHeight = 2\<rparr>
   \<and> length [0, 0, 0, 255, 85, 85, 85, 255, 170, 170, 170, 255, 255, 255, 255, 255 :: byte] = 4 * 2 * 2"
proof -
  have 1: "rows scenarioInfo = Some 2" "columns scenarioInfo = Some 2"
    by (simp_all add: scenarioInfo_def)
  show ?thesis
    using normalizer_output_is_image_data[OF 1 _ _ scenario_rgba0[of None], of blankCanvas]
    by simp
qed

text \<open>The claim as stated fails on the scenario: with the flat raster 0, 85, 170, 255 of
  the specification (\<open>2 * 2\<close> bytes) the constructor throws \<open>IndexSizeError\<close> (one pixel is
  not a multiple of the width 2), and the branch ends there.\<close>

theorem flat_raster_counterexample:
  "dicomRaster (scenarioEnv normalizeFlat None) scenarioInfo = Inr [0, 85, 170, 255]
   \<and> length [0, 85, 170, 255 :: byte] = 2 * 2
   \<and> dicomImageData (scenarioEnv normalizeFlat None) scenarioInfo = Inl IndexSizeError
   \<and> dicomPath (scenarioEnv normalizeFlat None) (Some scenarioInfo) blankCanvas
        = (blankCanvas, Inl IndexSizeError)"
proof -
  have r: "dicomRaster (scenarioEnv normalizeFlat None) scenarioInfo = Inr [0, 85, 170, 255]"
    using scenario_flat[where parsed=None and b=8 and p=Unsigned and ph=MONOCHROME2]
    by (simp add: scenarioInfo_def)
  have i: "dicomImageData (scenarioEnv normalizeFlat None) scenarioInfo = Inl IndexSizeError"
    by (simp add: dicomImageData_def r newImageData_def) (simp add: scenarioInfo_def)
  have m: "\<not> missingPixelData scenarioInfo"
    by (simp add: missingPixelData_def scenarioInfo_def)
  from r i dicomPath_image_error[OF m i] show ?thesis by simp
qed

text \<open>This does not depend on the normalizer chosen: on the scenario, no normalizer that
  returns \<open>2 * 2\<close> bytes lets \<^verbatim>\<open>handleFile\<close> build its image data.\<close>

lemma no_flat_normalizer_renders:
  "\<not> (\<exists>n raster img.
        dicomRaster (scenarioEnv n None) scenarioInfo = Inr raster \<and> length raster = 2 * 2 \<and>
        dicomImageData (scenarioEnv n None) scenarioInfo = Inr img)"
  by (auto simp: dicomImageData_def newImageData_def scenarioInfo_def split: sum.splits)

subsection \<open>C2: the decoder's validation\<close>

text \<open>Claim C2.  For every buffer whose scan has ended: if rows or columns is absent or
  zero, or the pixel data is absent or shorter than
  \<open>rows * columns * samplesPerPixel * ceil (bitsAllocated / 8)\<close>, decoding fails with
  MissingPixelDataError or InvalidDimensionsError, with InvalidDimensionsError when rows or
  columns is zero, and no record is returned to the caller.\<close>

theorem decode_validates:
  assumes "scan buffer = Inr sc"
    and "scRows sc = None \<or> scRows sc = Some 0 \<or> scColumns sc = None \<or> scColumns sc = Some 0 \<or>
         scPixelData sc = None \<or>
         (\<exists>r c px. scRows sc = Some r \<and> scColumns sc = Some c \<and> scPixelData sc = Some px \<and>
            length px < r * c * scSamplesPerPixel sc * ((scBitsAllocated sc + 7) div 8))"
  shows "(decodeDicom scan buffer = Inl MissingPixelDataError \<or>
          decodeDicom scan buffer = Inl InvalidDimensionsError)
       \<and> (scRows sc = Some 0 \<or> scColumns sc = Some 0 \<longrightarrow>
            decodeDicom scan buffer = Inl InvalidDimensionsError)
       \<and> (\<forall>record. decodeDicom scan buffer \<noteq> Inr record)"
  using assms
  by (auto simp: decodeDicom_def validateRecord_def requiredBytes_def split: option.splits)

text \<open>The theorem on three scans of the scenario: rows 0; rows 2 and columns 2 with three
  bytes of pixel data; no rows tag.\<close>

theorem decode_validates_witness:
  "decodeDicom (scenarioScan (Some 0) (Some 2) (Some [0, 85, 170, 255])) []
     = Inl InvalidDimensionsError
   \<and> decodeDicom (scenarioScan (Some 2) (Some 2) (Some [0, 85, 170])) []
     = Inl MissingPixelDataError
   \<and> decodeDicom (scenarioScan None (Some 2) (Some [0, 85, 170, 255])) []
     = Inl MissingPixelDataError"
proof -
  note zero = decode_validates[of "scenarioScan (Some 0) (Some 2) (Some [0, 85, 170, 255])" "[]"]
  note short = decode_validates[of "scenarioScan (Some 2) (Some 2) (Some [0, 85, 170])" "[]"]
  note absent = decode_validates[of "scenarioScan None (Some 2) (Some [0, 85, 170, 255])" "[]"]
  have a: "decodeDicom (scenarioScan (Some 0) (Some 2) (Some [0, 85, 170, 255])) []
             = Inl InvalidDimensionsError"
    using zero by (simp add: scenarioScan_def)
  have b: "decodeDicom (scenarioScan (Some 2) (Some 2) (Some [0, 85, 170])) []
             \<noteq> Inl InvalidDimensionsError"
    by (simp add: decodeDicom_def validateRecord_def requiredBytes_def scenarioScan_def)
  have c: "decodeDicom (scenarioScan None (Some 2) (Some [0, 85, 170, 255])) []
             \<noteq> Inl InvalidDimensionsError"
    by (simp add: decodeDicom_def validateRecord_def scenarioScan_def)
  from short b have b': "decodeDicom (scenarioScan (Some 2) (Some 2) (Some [0, 85, 170])) []
             = Inl MissingPixelDataError"
    by (simp add: scenarioScan_def)
  from absent c have c': "decodeDicom (scenarioScan None (Some 2) (Some [0, 85, 170, 255])) []
             = Inl MissingPixelDataError"
    by (simp add: scenarioScan_def)
  from a b' c' show ?thesis by simp
qed

text \<open>What the decoder returns is whole, and an error of the scan is the error of the
  decoding.\<close>

lemma decode_returns_whole_record:
  assumes "decodeDicom scan buffer = Inr record"
  shows "0 < drRows record \<and> 0 < drColumns record \<and>
         drRows record * drColumns record * drSamplesPerPixel record
           * ((drBitsAllocated record + 7) div 8) \<le> length (drPixelData record)"
  using assms
  by (auto simp: decodeDicom_def validateRecord_def requiredBytes_def
      split: sum.splits option.splits if_splits)

lemma decode_propagates: "scan buffer = Inl e \<Longrightarrow> decodeDicom scan buffer = Inl e"
  by (simp add: decodeDicom_def)

text \<open>The caller's side, lines 37 to 39 of \<^verbatim>\<open>handleFile\<close>, for a buffer the probe accepts and
  a canvas with a 2d context: when \<^verbatim>\<open>parseDicom\<close> throws, whatever the error, the message of
  what it threw is reported; when it returns nothing, \<^verbatim>\<open>handleFile\<close> throws
  \<^verbatim>\<open>Error('Failed to parse DICOM')\<close>; a record with rows or columns absent or zero, or without
  pixel data, should one be returned, is refused with \<^verbatim>\<open>Error('Missing pixel data')\<close>.  In
  all three cases no result is set, loading ends and the canvas is left as it was.\<close>

lemma handleFile_unusable_record:
  assumes "context2d env" "isLikelyDicom (fileBytes file)"
    and "case parseDicom env (fileBytes file) of
           Inl e \<Rightarrow> True
         | Inr None \<Rightarrow> True
         | Inr (Some info) \<Rightarrow>
             rows info = None \<or> rows info = Some 0 \<or> columns info = None \<or>
             columns info = Some 0 \<or> pixelData info = None"
  shows "uiResult (handleFile env file s) = None
       \<and> uiError (handleFile env file s) =
           Some (case parseDicom env (fileBytes file) of
                   Inl e \<Rightarrow> caughtMessage env e
                 | Inr None \<Rightarrow> ''Failed to parse DICOM''
                 | Inr (Some info) \<Rightarrow> ''Missing pixel data'')
       \<and> uiLoading (handleFile env file s) = False
       \<and> uiCanvas (handleFile env file s) = uiCanvas s
       \<and> (\<forall>parsed. parseDicom env (fileBytes file) = Inr parsed \<longrightarrow>
            dicomPath env parsed c =
              (c, Inl (JsError (if parsed = None then ''Failed to parse DICOM''
                                else ''Missing pixel data''))))"
proof (cases "parseDicom env (fileBytes file)")
  case (Inl e)
  then show ?thesis using assms(1,2) by (simp add: handleFile_def Let_def)
next
  case (Inr parsed)
  have p: "\<And>c. dicomPath env parsed c =
           (c, Inl (JsError (if parsed = None then ''Failed to parse DICOM''
                             else ''Missing pixel data'')))"
    using assms(3) Inr by (auto simp: dicomPath_def missingPixelData_def split: option.splits)
  show ?thesis
    using assms(1,2) Inr p
    by (auto simp: handleFile_def Let_def caughtMessage_def split: option.splits)
qed

subsection \<open>C3: the classifier's output\<close>

text \<open>Claim C3.  For every feature vector (and every bias and weights), the result of
  \<open>classify\<close> has \<open>probabilityCT + probabilityMRI = 1\<close>, its label is CT if and only if
  \<open>probabilityCT \<ge> 0.5\<close>, and a tie at exactly 0.5 gives CT.  \<open>classify\<close> is a total
  function with no error result: every feature vector has a classification.\<close>

theorem classify_invariant:
  "probabilityCT (classify bias weights features)
     + probabilityMRI (classify bias weights features) = 1 \<and>
   (label (classify bias weights features) = CT \<longleftrightarrow>
      1 / 2 \<le> probabilityCT (classify bias weights features)) \<and>
   (probabilityCT (classify bias weights features) = 1 / 2 \<longrightarrow>
      label (classify bias weights features) = CT)"
  by (simp add: classify_def Let_def)

text \<open>The tie: bias \<open>- 1 / 2\<close>, weight 1 and feature \<open>1 / 2\<close> give the score 0 and the
  probability \<open>1 / 2\<close>; the label is CT.\<close>

theorem classify_invariant_witness:
  "probabilityCT (classify (- 1 / 2) [1] [1 / 2]) = 1 / 2 \<and>
   label (classify (- 1 / 2) [1] [1 / 2]) = CT \<and>
   probabilityCT (classify (- 1 / 2) [1] [1 / 2])
     + probabilityMRI (classify (- 1 / 2) [1] [1 / 2]) = 1"
proof -
  have p: "probabilityCT (classify (- 1 / 2) [1] [1 / 2]) = 1 / 2"
    by (simp add: classify_def Let_def sigmoid_def score_def)
  with classify_invariant[of "- 1 / 2" "[1]" "[1 / 2]"] show ?thesis by simp
qed

subsection \<open>C4: the photometric interpretation\<close>

text \<open>Claim C4, as amended.  The claim says that the rasters under MONOCHROME1 and
  MONOCHROME2 are complementary.  \<^verbatim>\<open>handleFile\<close> passes the normalizer the pixel data and six
  options, and the photometric interpretation is not one of them; nothing else in
  \<^verbatim>\<open>handleFile\<close> reads it or inverts a raster.  So, for every normalizer and every decoded
  record, the options, the raster and the whole DICOM branch are the same under MONOCHROME1
  as under MONOCHROME2.\<close>

theorem photometric_interpretation_not_read:
  "normalizeOptions (info\<lparr>photometricInterpretation := MONOCHROME1\<rparr>)
     = normalizeOptions (info\<lparr>photometricInterpretation := MONOCHROME2\<rparr>)
   \<and> dicomRaster env (info\<lparr>photometricInterpretation := MONOCHROME1\<rparr>)
     = dicomRaster env (info\<lparr>photometricInterpretation := MONOCHROME2\<rparr>)
   \<and> dicomPath env (Some (info\<lparr>photometricInterpretation := MONOCHROME1\<rparr>)) c
     = dicomPath env (Some (info\<lparr>photometricInterpretation := MONOCHROME2\<rparr>)) c"
proof -
  let ?a = "info\<lparr>photometricInterpretation := MONOCHROME1\<rparr>"
  let ?b = "info\<lparr>photometricInterpretation := MONOCHROME2\<rparr>"
  have o: "normalizeOptions ?a = normalizeOptions ?b" by (simp add: normalizeOptions_def)
  have r: "dicomRaster env ?a = dicomRaster env ?b" by (simp add: dicomRaster_def o)
  have "dicomPath env (Some ?a) c = dicomPath env (Some ?b) c"
  proof (rule dicomPath_same)
    show "missingPixelData ?a = missingPixelData ?b" by (simp add: missingPixelData_def)
    show "dicomImageData env ?a = dicomImageData env ?b"
      by (simp add: dicomImageData_def r split: sum.splits)
    show "dicomAnalyzed env ?a = dicomAnalyzed env ?b" by (simp add: dicomAnalyzed_def fun_eq_iff)
    show "dicomResult ?a = dicomResult ?b" by (simp add: dicomResult_def dicomMeta_def fun_eq_iff)
  qed
  with o r show ?thesis by simp
qed

text \<open>The claim as stated fails on the scenario: the raster is 0, 85, 170, 255 under
  both interpretations, and that is not its own complement 255, 170, 85, 0.\<close>

theorem monochrome1_counterexample:
  "dicomRaster (scenarioEnv normalizeFlat None)
       (scenarioInfo\<lparr>photometricInterpretation := MONOCHROME1\<rparr>) = Inr [0, 85, 170, 255]
   \<and> dicomRaster (scenarioEnv normalizeFlat None)
       (scenarioInfo\<lparr>photometricInterpretation := MONOCHROME2\<rparr>) = Inr [0, 85, 170, 255]
   \<and> [0, 85, 170, 255] \<noteq> map (\<lambda>v. 255 - v) [0, 85, 170, 255 :: byte]"
  using scenario_flat[where parsed=None and b=8 and p=Unsigned and ph=MONOCHROME1]
        scenario_flat[where parsed=None and b=8 and p=Unsigned and ph=MONOCHROME2]
  by (simp add: scenarioInfo_def)

text \<open>This does not depend on the normalizer chosen: on the scenario, no normalizer
  returns a raster under MONOCHROME1 and its complement under MONOCHROME2.\<close>

lemma no_normalizer_inverts:
  "\<not> (\<exists>n raster. raster \<noteq> [] \<and>
        dicomRaster (scenarioEnv n None)
          (scenarioInfo\<lparr>photometricInterpretation := MONOCHROME1\<rparr>) = Inr raster \<and>
        dicomRaster (scenarioEnv n None)
          (scenarioInfo\<lparr>photometricInterpretation := MONOCHROME2\<rparr>)
          = Inr (map (\<lambda>v. 255 - v) raster))"
proof
  assume "\<exists>n raster. raster \<noteq> [] \<and>
        dicomRaster (scenarioEnv n None)
          (scenarioInfo\<lparr>photometricInterpretation := MONOCHROME1\<rparr>) = Inr raster \<and>
        dicomRaster (scenarioEnv n None)
          (scenarioInfo\<lparr>photometricInterpretation := MONOCHROME2\<rparr>)
          = Inr (map (\<lambda>v. 255 - v) raster)"
  then obtain n raster where ne: "raster \<noteq> []"
    and 1: "dicomRaster (scenarioEnv n None)
              (scenarioInfo\<lparr>photometricInterpretation := MONOCHROME1\<rparr>) = Inr raster"
    and 2: "dicomRaster (scenarioEnv n None)
              (scenarioInfo\<lparr>photometricInterpretation := MONOCHROME2\<rparr>)
              = Inr (map (\<lambda>v. 255 - v) raster)"
    by blast
  have "dicomRaster (scenarioEnv n None)
          (scenarioInfo\<lparr>photometricInterpretation := MONOCHROME1\<rparr>)
      = dicomRaster (scenarioEnv n None)
          (scenarioInfo\<lparr>photometricInterpretation := MONOCHROME2\<rparr>)"
    by (rule dicomRaster_same) (simp_all add: normalizeOptions_def)
  with 1 2 have "raster = map (\<lambda>v. 255 - v) raster" by simp
  then have "hd raster = 255 - hd raster" using ne by (cases raster) simp_all
  then show False using byte_not_own_complement by blast
qed

subsection \<open>C5: bit depth and signedness\<close>

text \<open>Claim C5, as amended.  The claim says that the normalizer takes \<open>bitsAllocated\<close> and
  \<open>pixelRepresentation\<close> and fails on a depth outside 8 and 16.  The call in \<^verbatim>\<open>handleFile\<close>
  passes the pixel data and the six options \<open>rows\<close>, \<open>columns\<close>, \<open>rescaleSlope\<close>,
  \<open>rescaleIntercept\<close>, \<open>windowCenter\<close>, \<open>windowWidth\<close>.  So, for every normalizer and every
  decoded record, the options, the normalizer's result and the whole DICOM branch are the
  same for every value of \<open>bitsAllocated\<close> and \<open>pixelRepresentation\<close>: no failure of the
  normalizer is a consequence of the declared bit depth.\<close>

theorem bit_depth_not_passed:
  "normalizeOptions (info\<lparr>bitsAllocated := b, pixelRepresentation := p\<rparr>) = normalizeOptions info
   \<and> dicomRaster env (info\<lparr>bitsAllocated := b, pixelRepresentation := p\<rparr>) = dicomRaster env info
   \<and> dicomPath env (Some (info\<lparr>bitsAllocated := b, pixelRepresentation := p\<rparr>)) c
     = dicomPath env (Some info) c"
proof -
  let ?a = "info\<lparr>bitsAllocated := b, pixelRepresentation := p\<rparr>"
  have o: "normalizeOptions ?a = normalizeOptions info" by (simp add: normalizeOptions_def)
  have r: "dicomRaster env ?a = dicomRaster env info" by (simp add: dicomRaster_def o)
  have "dicomPath env (Some ?a) c = dicomPath env (Some info) c"
  proof (rule dicomPath_same)
    show "missingPixelData ?a = missingPixelData info" by (simp add: missingPixelData_def)
    show "dicomImageData env ?a = dicomImageData env info"
      by (simp add: dicomImageData_def r split: sum.splits)
    show "dicomAnalyzed env ?a = dicomAnalyzed env info" by (simp add: dicomAnalyzed_def fun_eq_iff)
    show "dicomResult ?a = dicomResult info" by (simp add: dicomResult_def dicomMeta_def fun_eq_iff)
  qed
  with o r show ?thesis by simp
qed

text \<open>The claim as stated fails on the scenario with 12 bits allocated: the normalizer
  is called as for 8 bits and returns the raster, not an \<open>UnsupportedBitDepthError\<close>.\<close>

theorem bit_depth_12_counterexample:
  "bitsAllocated (scenarioInfo\<lparr>bitsAllocated := 12\<rparr>) = 12
   \<and> dicomRaster (scenarioEnv normalizeRGBA None) (scenarioInfo\<lparr>bitsAllocated := 12\<rparr>)
     = Inr [0, 0, 0, 255, 85, 85, 85, 255, 170, 170, 170, 255, 255, 255, 255, 255]
   \<and> dicomRaster (scenarioEnv normalizeRGBA None) (scenarioInfo\<lparr>bitsAllocated := 12\<rparr>)
     \<noteq> Inl UnsupportedBitDepthError"
  using scenario_rgba[where parsed=None and b=12 and p=Unsigned and ph=MONOCHROME2]
  by (simp add: scenarioInfo_def)

text \<open>This does not depend on the normalizer chosen: no normalizer rejects the scenario
  declared with 12 bits and accepts it declared with 8.\<close>

lemma no_normalizer_rejects_bit_depth:
  "\<not> (\<exists>n. dicomRaster (scenarioEnv n None) (scenarioInfo\<lparr>bitsAllocated := 12\<rparr>)
              = Inl UnsupportedBitDepthError \<and>
            dicomRaster (scenarioEnv n None) scenarioInfo \<noteq> Inl UnsupportedBitDepthError)"
proof -
  have "dicomRaster (scenarioEnv n None) (scenarioInfo\<lparr>bitsAllocated := 12\<rparr>)
      = dicomRaster (scenarioEnv n None) scenarioInfo" for n
    by (rule dicomRaster_same) (simp_all add: normalizeOptions_def)
  then show ?thesis by simp
qed

subsection \<open>C6: the magic-byte probe\<close>

text \<open>Claim C6.  For every byte buffer, \<open>isLikelyDicom\<close> is true if and only if the four
  bytes at offsets 128 to 131 are the ASCII literal DICM; it is false for every buffer
  shorter than 132 bytes, the empty buffer included.\<close>

theorem isLikelyDicom_magic:
  "(isLikelyDicom bytes \<longleftrightarrow> take 4 (drop 128 bytes) = asciiBytes ''DICM'')
   \<and> (length bytes < 132 \<longrightarrow> \<not> isLikelyDicom bytes)"
  unfolding asciiBytes_DICM take_drop_four isLikelyDicom_def by simp

text \<open>The empty buffer is refused; 128 zero bytes followed by DICM are accepted.\<close>

theorem isLikelyDicom_magic_witness:
  "length ([] :: byte list) < 132 \<and> \<not> isLikelyDicom []
   \<and> isLikelyDicom (replicate 128 0 @ asciiBytes ''DICM'')"
  using isLikelyDicom_magic[of "[]"] isLikelyDicom_magic[of "replicate 128 0 @ asciiBytes ''DICM''"]
  by (simp add: asciiBytes_DICM)

subsection \<open>C7: monotonicity of the normalizer\<close>

text \<open>Claim C7, as amended.  With the window derived from the minimum and the maximum, a
  rescale slope that is absent or not negative, a photometric interpretation other than
  MONOCHROME1, and a rounding to bytes that is monotone on the range 0 to 255: for every
  pixel buffer the normalizer accepts and every pair of positions \<open>i\<close>, \<open>j\<close> of its raster, if
  \<open>sample i < sample j\<close> then \<open>normalized i \<le> normalized j\<close>.\<close>

theorem normalize_monotone:
  assumes q: "\<forall>x y. 0 \<le> x \<and> x \<le> y \<and> y \<le> 255 \<longrightarrow> q x \<le> q y"
    and slope: "\<forall>a. optRescaleSlope opts = Some a \<longrightarrow> 0 \<le> a"
    and ph: "ph \<noteq> MONOCHROME1"
    and win: "optWindowCenter opts = None \<or> optWindowWidth opts = None"
    and samples: "reinterpret bits rep bytes = Inr samples"
    and raster: "normalize q bits rep ph opts bytes = Inr raster"
    and i: "i < length (grSamples raster)"
    and j: "j < length (grSamples raster)"
    and lt: "samples ! i < samples ! j"
  shows "grSamples raster ! i \<le> grSamples raster ! j"
proof -
  from normalize_shape[OF raster] samples
  have g: "grSamples raster = map (invertFor ph) (normalizeSamples q samples opts)"
    by auto
  have id: "invertFor ph = (\<lambda>v. v)" using ph by (simp add: invertFor_def fun_eq_iff)
  have g': "grSamples raster = normalizeSamples q samples opts" using g id by simp
  let ?vs = "rescaled opts samples"
  let ?cw = "displayWindow opts ?vs"
  have i': "i < length (normalizeSamples q samples opts)"
    and j': "j < length (normalizeSamples q samples opts)"
    using i j g' by simp_all
  have cw: "?cw = derivedWindow ?vs"
    using win by (auto simp: displayWindow_def split: option.splits)
  have pos: "0 < snd ?cw" using derivedWindow_width[of ?vs] cw by simp
  have sl: "0 \<le> (case optRescaleSlope opts of None \<Rightarrow> 1 | Some a \<Rightarrow> a)"
    using slope by (simp split: option.splits)
  have "real_of_int (samples ! i) \<le> real_of_int (samples ! j)" using lt by simp
  then have "?vs ! i \<le> ?vs ! j"
    using i' j' sl by (simp add: rescaled_nth normalizeSamples_length mult_right_mono)
  then have "windowLevel ?cw (?vs ! i) \<le> windowLevel ?cw (?vs ! j)"
    using pos by (rule windowLevel_mono[rotated])
  then have "q (windowLevel ?cw (?vs ! i)) \<le> q (windowLevel ?cw (?vs ! j))"
    using q windowLevel_range by blast
  then show ?thesis using i' j' g' by (simp add: normalizeSamples_nth)
qed

text \<open>The theorem on samples stored in 16 bits, signed: \<open>-1\<close>, 84, 169, 254 with the
  slope 2 and the intercept \<open>-50\<close> of the specification's second scenario, MONOCHROME2,
  rounded to the nearest byte; positions 0 and 3.\<close>

theorem normalize_monotone_witness:
  "reinterpret 16 Signed [0xFF, 0xFF, 84, 0, 169, 0, 254, 0] = Inr [- 1, 84, 169, 254]
   \<and> normalize roundByte 16 Signed MONOCHROME2
        \<lparr>optRows = 2, optColumns = 2, optRescaleSlope = Some 2, optRescaleIntercept = Some (- 50),
         optWindowCenter = None, optWindowWidth = None\<rparr>
        [0xFF, 0xFF, 84, 0, 169, 0, 254, 0]
      = Inr \<lparr>grWidth = 2, grHeight = 2, grSamples = [0, 85, 170, 255]\<rparr>
   \<and> ([- 1, 84, 169, 254] :: int list) ! 0 < [- 1, 84, 169, 254] ! 3
   \<and> ([0, 85, 170, 255] :: byte list) ! 0 \<le> [0, 85, 170, 255] ! 3"
proof -
  let ?opts = "\<lparr>optRows = 2, optColumns = 2, optRescaleSlope = Some 2,
                optRescaleIntercept = Some (- 50),
                optWindowCenter = None, optWindowWidth = None\<rparr>"
  let ?bytes = "[0xFF, 0xFF, 84, 0, 169, 0, 254, 0] :: byte list"
  have s: "reinterpret 16 Signed ?bytes = Inr [- 1, 84, 169, 254]"
    by (simp add: reinterpret_def sampleValue_def)
  have n: "normalize roundByte 16 Signed MONOCHROME2 ?opts ?bytes
             = Inr \<lparr>grWidth = 2, grHeight = 2, grSamples = [0, 85, 170, 255]\<rparr>"
    by (simp add: normalize_def s invertFor_def normalizeSamples_def rescaled_def
        displayWindow_def derivedWindow_def windowLevel_def roundByte_def Let_def)
  have m: "\<forall>x y. 0 \<le> x \<and> x \<le> y \<and> y \<le> 255 \<longrightarrow> roundByte x \<le> roundByte y"
    by (simp add: roundByte_mono)
  have "grSamples \<lparr>grWidth = 2, grHeight = 2, grSamples = [0, 85, 170, 255]\<rparr> ! 0
          \<le> grSamples \<lparr>grWidth = 2, grHeight = 2, grSamples = [0, 85, 170, 255]\<rparr> ! 3"
    by (rule normalize_monotone[OF m _ _ _ s n]) simp_all
  with s n show ?thesis by simp
qed

text \<open>The claim as stated fails in two ways, each on the samples 0 and 1, unsigned in 8
  bits, with the derived window.  With slope \<open>-1\<close> the rescale reverses the order; with
  MONOCHROME1 and no rescale the inversion of step (5) does.  Both rasters are 255, 0.\<close>

theorem order_reversed_counterexample:
  "reinterpret 8 Unsigned [0, 1] = Inr [0, 1]
   \<and> ([0, 1] :: int list) ! 0 < [0, 1] ! 1
   \<and> normalize roundByte 8 Unsigned MONOCHROME2
        \<lparr>optRows = 2, optColumns = 1, optRescaleSlope = Some (- 1), optRescaleIntercept = None,
         optWindowCenter = None, optWindowWidth = None\<rparr> [0, 1]
      = Inr \<lparr>grWidth = 1, grHeight = 2, grSamples = [255, 0]\<rparr>
   \<and> normalize roundByte 8 Unsigned MONOCHROME1
        \<lparr>optRows = 2, optColumns = 1, optRescaleSlope = None, optRescaleIntercept = None,
         optWindowCenter = None, optWindowWidth = None\<rparr> [0, 1]
      = Inr \<lparr>grWidth = 1, grHeight = 2, grSamples = [255, 0]\<rparr>
   \<and> \<not> ([255, 0] :: byte list) ! 0 \<le> [255, 0] ! 1"
  by (simp add: normalize_def reinterpret_def sampleValue_def invertFor_def
      normalizeSamples_def rescaled_def displayWindow_def derivedWindow_def
      windowLevel_def roundByte_def Let_def)

subsection \<open>C9: what the presentation layer receives\<close>

text \<open>Claim C9.  For a buffer the probe accepts and \<^verbatim>\<open>parseDicom\<close> decodes, the result
  \<^verbatim>\<open>handleFile\<close> sets (\<^verbatim>\<open>setResult\<close>, lines 69 to 88) is \<open>res\<close> exactly when the canvas has
  a 2d context, the record has its dimensions and pixel data, every stage succeeds, and
  \<open>res\<close> is the label and the two probabilities the classifier returns for the feature
  vector of the image read back from the canvas (its only argument), the modality, and a
  metadata object with exactly the nine keys modality, transferSyntax, rows, columns,
  windowCenter, windowWidth, rescaleSlope, rescaleIntercept, frames, each with the value of
  the record.  For every other modality, transfer syntax and frame count in the decoded
  record, \<^verbatim>\<open>handleFile\<close> sets a result in the same cases, with the same label and
  probabilities.\<close>

theorem dicom_result_contents:
  assumes dcm: "isLikelyDicom (fileBytes file)"
    and parse: "parseDicom env (fileBytes file) = Inr (Some info)"
  shows "(uiResult (handleFile env file s) = Some res \<longleftrightarrow>
           context2d env \<and> \<not> missingPixelData info \<and>
           (\<exists>imageData analyzed features classification.
              dicomImageData env info = Inr imageData \<and>
              snd (dicomAnalyzed env info imageData (uiCanvas s)) = Inr analyzed \<and>
              computeFeaturesFromImageData env analyzed = Inr features \<and>
              classifyFeatures env features = Inr classification \<and>
              res = \<lparr>resLabel = label classification,
                     resProbabilityCT = probabilityCT classification,
                     resProbabilityMRI = probabilityMRI classification,
                     resModality = modality info,
                     resMeta = Some
                       [(''modality'', metaString (modality info)),
                        (''transferSyntax'', metaString (transferSyntax info)),
                        (''rows'', metaCount (rows info)),
                        (''columns'', metaCount (columns info)),
                        (''windowCenter'', metaNumber (windowCenter info)),
                        (''windowWidth'', metaNumber (windowWidth info)),
                        (''rescaleSlope'', metaNumber (rescaleSlope info)),
                        (''rescaleIntercept'', metaNumber (rescaleIntercept info)),
                        (''frames'', metaCount (numberOfFrames info))]\<rparr>))
       \<and> (\<forall>m t k.
            map_option resLabel (uiResult (handleFile
               (env\<lparr>parseDicom := \<lambda>b. Inr (Some (info\<lparr>modality := m, transferSyntax := t,
                                                          numberOfFrames := k\<rparr>))\<rparr>) file s))
              = map_option resLabel (uiResult (handleFile env file s)) \<and>
            map_option resProbabilityCT (uiResult (handleFile
               (env\<lparr>parseDicom := \<lambda>b. Inr (Some (info\<lparr>modality := m, transferSyntax := t,
                                                          numberOfFrames := k\<rparr>))\<rparr>) file s))
              = map_option resProbabilityCT (uiResult (handleFile env file s)) \<and>
            map_option resProbabilityMRI (uiResult (handleFile
               (env\<lparr>parseDicom := \<lambda>b. Inr (Some (info\<lparr>modality := m, transferSyntax := t,
                                                          numberOfFrames := k\<rparr>))\<rparr>) file s))
              = map_option resProbabilityMRI (uiResult (handleFile env file s)))"
proof -
  have first: "uiResult (handleFile env file s) = Some res \<longleftrightarrow>
           context2d env \<and> \<not> missingPixelData info \<and>
           (\<exists>imageData analyzed features classification.
              dicomImageData env info = Inr imageData \<and>
              snd (dicomAnalyzed env info imageData (uiCanvas s)) = Inr analyzed \<and>
              computeFeaturesFromImageData env analyzed = Inr features \<and>
              classifyFeatures env features = Inr classification \<and>
              res = dicomResult info classification)"
    unfolding handleFile_dicom_result[OF dcm parse] dicomPath_result_iff[symmetric]
    by (auto split: sum.splits)
  have second: "map_option f (uiResult (handleFile
               (env\<lparr>parseDicom := \<lambda>b. Inr (Some (info\<lparr>modality := m, transferSyntax := t,
                                                          numberOfFrames := k\<rparr>))\<rparr>) file s))
              = map_option f (uiResult (handleFile env file s))"
    if f: "\<And>r mo me. f (r\<lparr>resModality := mo, resMeta := me\<rparr>) = f r"
    for f :: "Result \<Rightarrow> 'x" and m t k
  proof -
    let ?b = "info\<lparr>modality := m, transferSyntax := t, numberOfFrames := k\<rparr>"
    let ?e = "env\<lparr>parseDicom := \<lambda>b. Inr (Some ?b)\<rparr>"
    have o: "normalizeOptions ?b = normalizeOptions info" by (simp add: normalizeOptions_def)
    have 1: "missingPixelData ?b = missingPixelData info" by (simp add: missingPixelData_def)
    have 2: "dicomImageData ?e ?b = dicomImageData env info"
      by (simp add: dicomImageData_def dicomRaster_def o split: sum.splits)
    have 3: "dicomAnalyzed ?e ?b = dicomAnalyzed env info"
      by (simp add: dicomAnalyzed_def resizeAndRender_def fun_eq_iff)
    have 4: "classifyImage ?e = classifyImage env"
      by (simp add: classifyImage_def fun_eq_iff split: sum.splits)
    have p: "snd (dicomPath ?e (Some ?b) c) =
             map_sum (\<lambda>e. e) (\<lambda>r. r\<lparr>resModality := m, resMeta := Some (dicomMeta ?b)\<rparr>)
               (snd (dicomPath env (Some info) c))" for c
      unfolding dicomPath_def option.case 1 2 3 4
      by (simp add: dicomResult_def split: sum.splits prod.splits)
    have q: "uiResult (handleFile ?e file s) =
           (if context2d ?e then
              (case snd (dicomPath ?e (Some ?b) (uiCanvas s)) of
                 Inl e \<Rightarrow> None | Inr res \<Rightarrow> Some res)
            else None)"
      by (rule handleFile_dicom_result) (simp_all add: dcm)
    show ?thesis
      unfolding q handleFile_dicom_result[OF dcm parse] p
      by (auto simp: f split: sum.splits)
  qed
  show ?thesis
    unfolding first
    by (intro conjI allI second) (simp_all add: dicomResult_def dicomMeta_def)
qed

text \<open>The theorem on the scenario with window and rescale tags and one frame: the result
  \<^verbatim>\<open>handleFile\<close> sets, every one of the nine values defined; and the label it sets when the
  record says MR, has no transfer syntax and has three frames.\<close>

theorem dicom_result_contents_witness:
  "uiResult (handleFile (scenarioEnv normalizeRGBA (Some windowedInfo)) dicomFile idleState) =
     Some \<lparr>resLabel = CT, resProbabilityCT = 1 / 2, resProbabilityMRI = 1 / 2,
           resModality = Some ''CT'',
           resMeta = Some
             [(''modality'', MetaString ''CT''),
              (''transferSyntax'', MetaString ''1.2.840.10008.1.2.1''),
              (''rows'', MetaNumber 2), (''columns'', MetaNumber 2),
              (''windowCenter'', MetaNumber (255 / 2)), (''windowWidth'', MetaNumber 255),
              (''rescaleSlope'', MetaNumber 1), (''rescaleIntercept'', MetaNumber 0),
              (''frames'', MetaNumber 1)]\<rparr>
   \<and> map_option resLabel (uiResult (handleFile
        ((scenarioEnv normalizeRGBA (Some windowedInfo))
           \<lparr>parseDicom := \<lambda>b. Inr (Some (windowedInfo\<lparr>modality := Some ''MR'',
                                                         transferSyntax := None,
                                                         numberOfFrames := Some 3\<rparr>))\<rparr>)
        dicomFile idleState)) = Some CT"
proof -
  let ?E = "scenarioEnv normalizeRGBA (Some windowedInfo)"
  let ?res = "\<lparr>resLabel = CT, resProbabilityCT = 1 / 2, resProbabilityMRI = 1 / 2,
           resModality = Some ''CT'',
           resMeta = Some
             [(''modality'', MetaString ''CT''),
              (''transferSyntax'', MetaString ''1.2.840.10008.1.2.1''),
              (''rows'', MetaNumber 2), (''columns'', MetaNumber 2),
              (''windowCenter'', MetaNumber (255 / 2)), (''windowWidth'', MetaNumber 255),
              (''rescaleSlope'', MetaNumber 1), (''rescaleIntercept'', MetaNumber 0),
              (''frames'', MetaNumber 1)]\<rparr>"
  have parse: "parseDicom ?E (fileBytes dicomFile) = Inr (Some windowedInfo)"
    by (simp add: scenarioEnv_def)
  note inst = dicom_result_contents[OF dicomFile_is_dicom parse, of idleState ?res]
  have c: "context2d ?E" by (simp add: scenarioEnv_def)
  have m: "\<not> missingPixelData windowedInfo"
    by (simp add: missingPixelData_def windowedInfo_def scenarioInfo_def)
  have r: "?res =
     \<lparr>resLabel = label \<lparr>label = CT, probabilityCT = 1 / 2, probabilityMRI = 1 / 2\<rparr>,
      resProbabilityCT = probabilityCT \<lparr>label = CT, probabilityCT = 1 / 2, probabilityMRI = 1 / 2\<rparr>,
      resProbabilityMRI = probabilityMRI \<lparr>label = CT, probabilityCT = 1 / 2, probabilityMRI = 1 / 2\<rparr>,
      resModality = modality windowedInfo,
      resMeta = Some
        [(''modality'', metaString (modality windowedInfo)),
         (''transferSyntax'', metaString (transferSyntax windowedInfo)),
         (''rows'', metaCount (rows windowedInfo)),
         (''columns'', metaCount (columns windowedInfo)),
         (''windowCenter'', metaNumber (windowCenter windowedInfo)),
         (''windowWidth'', metaNumber (windowWidth windowedInfo)),
         (''rescaleSlope'', metaNumber (rescaleSlope windowedInfo)),
         (''rescaleIntercept'', metaNumber (rescaleIntercept windowedInfo)),
         (''frames'', metaCount (numberOfFrames windowedInfo))]\<rparr>"
    by (simp add: windowedInfo_def scenarioInfo_def metaString_def metaCount_def metaNumber_def)
  have first: "uiResult (handleFile ?E dicomFile idleState) = Some ?res"
    using inst c m r windowed_image[of "Some windowedInfo"]
      windowed_analyzed[of normalizeRGBA "Some windowedInfo" "uiCanvas idleState"]
      scenario_features[of normalizeRGBA "Some windowedInfo"]
      scenario_classification[of normalizeRGBA "Some windowedInfo"]
    by blast
  from inst first show ?thesis by simp
qed

subsection \<open>C10: the size of the analysed raster\<close>



end
